theory Spec2Isabelle
  imports Main "HOL-Library.Sublist"
begin

section \<open>JavaScript values\<close>

text \<open>
  The backend is the \<^verbatim>\<open>http.createServer\<close> callback of \<^verbatim>\<open>App.jsx\<close> (lines 69 to 1207): one
  chain of \<^verbatim>\<open>if / else if\<close> branches on the request method and the path segments, each
  branch issuing SQL through \<^verbatim>\<open>connection.query\<close> and answering through
  \<^verbatim>\<open>sendResponse\<close>.

  A JSON value, as \<^verbatim>\<open>JSON.parse\<close> returns it and as \<^verbatim>\<open>JSON.stringify\<close> takes it. Numbers
  are modelled as integers. A field that is absent from an object reads as
  \<^verbatim>\<open>undefined\<close>, which is \<open>None\<close> in a \<open>json option\<close>.
\<close>

datatype json =
    JNull
  | JBool bool
  | JNum int
  | JStr string
  | JArr "json list"
  | JObj "(string \<times> json) list"

type_synonym jsval = "json option"

text \<open>The result of \<^verbatim>\<open>parseInt\<close>: a number or \<^verbatim>\<open>NaN\<close>.\<close>

datatype jsnum = NaN | Num int

text \<open>JavaScript truthiness (\<^verbatim>\<open>ToBoolean\<close>): \<^verbatim>\<open>undefined\<close>, \<^verbatim>\<open>null\<close>, \<^verbatim>\<open>false\<close>, \<^verbatim>\<open>0\<close> and
  the empty string are falsy, every other value is truthy.\<close>

fun truthy :: "jsval \<Rightarrow> bool" where
  "truthy None = False"
| "truthy (Some JNull) = False"
| "truthy (Some (JBool b)) = b"
| "truthy (Some (JNum n)) = (n \<noteq> 0)"
| "truthy (Some (JStr s)) = (s \<noteq> [])"
| "truthy (Some (JArr xs)) = True"
| "truthy (Some (JObj kv)) = True"

text \<open>Object destructuring \<^verbatim>\<open>const { f } = v\<close>: it throws a \<^verbatim>\<open>TypeError\<close> on \<^verbatim>\<open>null\<close>
  (the outer \<open>None\<close>); on a value that is no object, or on an object without the key,
  the variable is \<^verbatim>\<open>undefined\<close>.\<close>

fun destructure :: "json \<Rightarrow> (string \<Rightarrow> jsval) option" where
  "destructure JNull = None"
| "destructure (JObj kv) = Some (map_of kv)"
| "destructure v = Some (\<lambda>k. None)"

subsection \<open>Strings\<close>

text \<open>White space as \<^verbatim>\<open>parseInt\<close> and \<^verbatim>\<open>String.prototype.trim\<close> see it, for strings of
  Latin-1 characters: TAB, LF, VT, FF, CR, space and the no-break space.\<close>

definition is_space :: "char \<Rightarrow> bool" where
  "is_space c = (of_char c \<in> {9::nat, 10, 11, 12, 13, 32, 160})"

definition is_digit :: "char \<Rightarrow> bool" where
  "is_digit c = (48 \<le> (of_char c :: nat) \<and> (of_char c :: nat) \<le> 57)"

definition trim :: "string \<Rightarrow> string" where
  "trim s = rev (dropWhile is_space (rev (dropWhile is_space s)))"

text \<open>The value of a string of decimal digits, most significant digit first.\<close>

fun digits_value :: "int \<Rightarrow> string \<Rightarrow> int" where
  "digits_value acc [] = acc"
| "digits_value acc (c # cs) = digits_value (acc * 10 + (int (of_char c) - 48)) cs"

text \<open>\<^verbatim>\<open>parseInt(s, 10)\<close>: skip leading white space, read an optional sign, then the longest
  prefix of decimal digits; \<^verbatim>\<open>NaN\<close> when that prefix is empty. What follows the digits is
  ignored.\<close>

definition parseInt :: "string \<Rightarrow> jsnum" where
  "parseInt s =
     (let t = dropWhile is_space s;
          neg = (t \<noteq> [] \<and> hd t = CHR ''-'');
          u = (if t \<noteq> [] \<and> (hd t = CHR ''-'' \<or> hd t = CHR ''+'') then tl t else t);
          z = takeWhile is_digit u
      in if z = [] then NaN
         else Num ((if neg then - 1 else 1) * digits_value 0 z))"

text \<open>The decimal rendering of an integer, which is what \<^verbatim>\<open>String(n)\<close> gives for an
  integer below \<^verbatim>\<open>1e21\<close> in magnitude.\<close>

fun dec_nat :: "nat \<Rightarrow> string" where
  "dec_nat n =
     (if n < 10 then [char_of (48 + n)]
      else dec_nat (n div 10) @ [char_of (48 + n mod 10)])"

declare dec_nat.simps [simp del]

definition dec_int :: "int \<Rightarrow> string" where
  "dec_int i = (if i < 0 then CHR ''-'' # dec_nat (nat (- i)) else dec_nat (nat i))"

fun join_with :: "string \<Rightarrow> string list \<Rightarrow> string" where
  "join_with sep [] = []"
| "join_with sep [x] = x"
| "join_with sep (x # y # ys) = x @ sep @ join_with sep (y # ys)"

text \<open>\<^verbatim>\<open>String(v)\<close> for a JSON value: an array joins the strings of its elements with
  commas (\<^verbatim>\<open>null\<close> elements give the empty string), an object is \<^verbatim>\<open>[object Object]\<close>.\<close>

fun js_to_string :: "json \<Rightarrow> string" where
  "js_to_string JNull = ''null''"
| "js_to_string (JBool b) = (if b then ''true'' else ''false'')"
| "js_to_string (JNum n) = dec_int n"
| "js_to_string (JStr s) = s"
| "js_to_string (JArr xs) =
     join_with '','' (map (\<lambda>x. if x = JNull then [] else js_to_string x) xs)"
| "js_to_string (JObj kv) = ''[object Object]''"

text \<open>\<^verbatim>\<open>parseInt(v, 10)\<close> on a value that is not \<^verbatim>\<open>undefined\<close> converts it to a string
  first.\<close>

definition parseInt_val :: "json \<Rightarrow> jsnum" where
  "parseInt_val v = parseInt (js_to_string v)"

section \<open>Requests, responses and the environment\<close>

text \<open>
  A request as the handler reads it: the method, \<^verbatim>\<open>pathSegments\<close> (the path name with
  leading and trailing slashes removed, in lower case, split at \<^verbatim>\<open>/\<close>; the comparisons
  of \<^verbatim>\<open>pathUrl\<close> with a literal are comparisons of this list), the \<^verbatim>\<open>x-user-id\<close> and
  \<^verbatim>\<open>range\<close> headers, and the outcome of \<^verbatim>\<open>JSON.parse(buffer)\<close>, \<open>None\<close> when it throws.
\<close>

record request =
  rq_method :: string
  rq_segs :: "string list"
  rq_user_id :: "string option"
  rq_range :: "string option"
  rq_body :: "json option"

text \<open>
  What the server puts on the wire. \<open>Json\<close> is \<^verbatim>\<open>sendResponse(status, data)\<close>; \<open>Empty\<close> is
  \<^verbatim>\<open>res.writeHead(status); res.end()\<close>; \<open>Plain\<close> is a \<^verbatim>\<open>text/plain\<close> body; \<open>Stream\<close> is
  \<^verbatim>\<open>fs.createReadStream(path).pipe(res)\<close> with the absolute path read; \<open>Content\<close> is a file
  of the front-end build sent with its MIME type; \<open>NoResponse\<close> is an exception that
  escapes the handler, so that nothing is sent.
\<close>

datatype response =
    Json nat json
  | Empty nat
  | Plain nat string
  | Stream nat "string list"
  | Content nat string "string list"
  | NoResponse

fun status_of :: "response \<Rightarrow> nat option" where
  "status_of (Json st b) = Some st"
| "status_of (Empty st) = Some st"
| "status_of (Plain st b) = Some st"
| "status_of (Stream st p) = Some st"
| "status_of (Content st m p) = Some st"
| "status_of NoResponse = None"

definition err :: "nat \<Rightarrow> string \<Rightarrow> response" where
  "err st msg = Json st (JObj [(''error'', JStr msg)])"

definition msg :: "nat \<Rightarrow> string \<Rightarrow> response" where
  "msg st m = Json st (JObj [(''message'', JStr m)])"

subsection \<open>Authentication\<close>

text \<open>\<^verbatim>\<open>const userId = userIdHeader ? parseInt(userIdHeader, 10) : null\<close>; \<open>None\<close> is
  \<^verbatim>\<open>null\<close>. An absent header and an empty header are both falsy.\<close>

definition userId_of :: "string option \<Rightarrow> jsnum option" where
  "userId_of h =
     (case h of None \<Rightarrow> None
      | Some s \<Rightarrow> if s = [] then None else Some (parseInt s))"

text \<open>The three tests of \<^verbatim>\<open>authenticate\<close> on \<^verbatim>\<open>userId\<close>: \<^verbatim>\<open>!userId\<close>, \<^verbatim>\<open>isNaN(userId)\<close> and
  \<^verbatim>\<open>userId <= 0\<close> (\<^verbatim>\<open>null\<close> converts to 0, a comparison with \<^verbatim>\<open>NaN\<close> is false).\<close>

fun js_not :: "jsnum option \<Rightarrow> bool" where
  "js_not None = True"
| "js_not (Some NaN) = True"
| "js_not (Some (Num n)) = (n = 0)"

fun isNaN :: "jsnum option \<Rightarrow> bool" where
  "isNaN None = False"
| "isNaN (Some NaN) = True"
| "isNaN (Some (Num n)) = False"

fun le_zero :: "jsnum option \<Rightarrow> bool" where
  "le_zero None = True"
| "le_zero (Some NaN) = False"
| "le_zero (Some (Num n)) = (n \<le> 0)"

text \<open>\<^verbatim>\<open>authenticate()\<close> returns false after sending the 401, true otherwise.\<close>

definition authenticate :: "jsnum option \<Rightarrow> bool" where
  "authenticate uid = (\<not> (js_not uid \<or> isNaN uid \<or> le_zero uid))"

definition unauthenticated :: response where
  "unauthenticated =
     err 401 ''Authentication required. X-User-Id header is missing or invalid.''"

text \<open>The number bound to the \<^verbatim>\<open>user_id\<close> parameter of a query once \<^verbatim>\<open>authenticate\<close> has
  passed.\<close>

fun uid_int :: "jsnum option \<Rightarrow> int" where
  "uid_int (Some (Num n)) = n"
| "uid_int u = 0"

section \<open>The environment and the database\<close>

text \<open>Error codes of the MySQL driver that the handlers inspect; \<open>ER_OTHER\<close> is any other
  failure of a statement.\<close>

datatype sqlerr =
    ER_NO_REFERENCED_ROW_2
  | ER_BAD_NULL_ERROR
  | ER_DUP_ENTRY
  | ER_BAD_FIELD_ERROR
  | ER_OTHER

datatype fsnode = File | Dir

text \<open>
  What a request meets outside the handler's own code:
  \<^item> \<open>sql_err k\<close>: whether the database refuses the \<open>k\<close>-th statement this request issues
    (counted from 0), and with which code; a refused statement changes nothing;
  \<^item> \<open>sql_int\<close>: the integer MySQL reads a bound parameter as when it is compared with or
    stored in an integer column (\<^verbatim>\<open>'5'\<close> is 5);
  \<^item> \<open>sql_text_eq\<close>: MySQL's \<^verbatim>\<open>=\<close> between a stored text and a bound parameter, which
    depends on the collation;
  \<^item> \<open>now\<close>: the value of \<^verbatim>\<open>NOW()\<close>;
  \<^item> \<open>to_number\<close>: JavaScript's conversion of a string to a number, used when a string is
    compared with a number;
  \<^item> \<open>bcrypt_compare\<close>, \<open>bcrypt_hash\<close>: the password library, \<open>None\<close> when its promise
    rejects;
  \<^item> \<open>default_role\<close>: the default of the \<^verbatim>\<open>role\<close> column, which the schema sets;
  \<^item> \<open>stats_body\<close>: the statistics object of a user, computed by an aggregate query and
    floating-point arithmetic that are not modelled;
  \<^item> \<open>cwd\<close>: \<^verbatim>\<open>path.resolve()\<close>, the segments of the absolute working directory;
  \<^item> \<open>fs\<close>: the file system, from the segments of an absolute path.
\<close>

record env =
  sql_err :: "nat \<Rightarrow> sqlerr option"
  sql_int :: "json \<Rightarrow> int"
  sql_text_eq :: "json \<Rightarrow> json \<Rightarrow> bool"
  now :: nat
  to_number :: "string \<Rightarrow> jsnum"
  bcrypt_compare :: "jsval \<Rightarrow> json \<Rightarrow> bool option"
  bcrypt_hash :: "json \<Rightarrow> json option"
  default_role :: "string option"
  stats_body :: "int \<Rightarrow> json"
  cwd :: "string list"
  fs :: "string list \<Rightarrow> fsnode option"

text \<open>The tables. A column that takes a bound parameter as it comes holds the JSON value
  bound; SQL \<^verbatim>\<open>NULL\<close> is \<open>JNull\<close>, or \<open>None\<close> in an optional column.\<close>

record user =
  u_id :: int
  u_name :: json
  u_email :: json
  u_password :: json
  u_role :: "string option"
  u_streak_days :: int
  u_created_at :: nat

record sprint =
  s_id :: int
  s_title :: json
  s_description :: json
  s_video_url :: json
  s_max_duration_seconds :: int
  s_is_active :: bool
  s_thumbnail_url :: json
  s_created_at :: nat

record reflection =
  r_id :: int
  r_user_id :: int
  r_lesson_id :: int
  r_text :: json
  r_status :: string
  r_score :: json
  r_admin_feedback :: json
  r_submitted_at :: "nat option"
  r_marked_at :: "nat option"
  r_created_at :: nat
  r_updated_at :: nat

record progress =
  p_user_id :: int
  p_sprint_id :: int
  p_percentage :: json
  p_is_completed :: bool

record user_note =
  n_user_id :: int
  n_content_type :: json
  n_content_id :: json
  n_text :: json
  n_updated_at :: nat

record category =
  c_id :: int
  c_name :: json

text \<open>A lesson row: its id, its creation time, and its other columns by name.\<close>

record lesson =
  l_id :: int
  l_cols :: "(string \<times> json) list"
  l_created_at :: nat

record db =
  users :: "user list"
  sprints :: "sprint list"
  lesson_reflections :: "reflection list"
  sprint_progress :: "progress list"
  user_notes :: "user_note list"
  skill_categories :: "category list"
  lessons :: "lesson list"

text \<open>The id an auto-increment column gives to a new row: one that no row has.\<close>

definition fresh_id :: "int list \<Rightarrow> int" where
  "fresh_id ids = fold max ids 0 + 1"

fun opt_json :: "jsval \<Rightarrow> json" where
  "opt_json None = JNull"
| "opt_json (Some v) = v"

fun time_json :: "nat option \<Rightarrow> json" where
  "time_json None = JNull"
| "time_json (Some t) = JNum (int t)"

fun role_json :: "string option \<Rightarrow> json" where
  "role_json None = JNull"
| "role_json (Some r) = JStr r"

subsection \<open>Paths\<close>

text \<open>
  \<^verbatim>\<open>path.join\<close> on POSIX joins its arguments with \<^verbatim>\<open>/\<close> and normalises the result: an
  empty segment and \<^verbatim>\<open>.\<close> are dropped, \<^verbatim>\<open>..\<close> removes the segment before it (and is
  dropped at the root of an absolute path). Paths are lists of segments; all paths here
  are absolute.
\<close>

definition norm_step :: "string list \<Rightarrow> string \<Rightarrow> string list" where
  "norm_step st s =
     (if s = [] \<or> s = ''.'' then st
      else if s = ''..'' then butlast st
      else st @ [s])"

definition path_join :: "string list \<Rightarrow> string list \<Rightarrow> string list" where
  "path_join base segs = foldl norm_step [] (base @ segs)"

definition UPLOADS_DIR :: "env \<Rightarrow> string list" where
  "UPLOADS_DIR e = path_join (cwd e) [''uploads'']"

definition FRONTEND_DIR :: "env \<Rightarrow> string list" where
  "FRONTEND_DIR e = path_join (cwd e) [''..'', ''frontend'', ''dist'']"

text \<open>\<^verbatim>\<open>path.extname\<close>, lower-cased by the caller: the last segment from its last dot, when
  that dot is not its first character.\<close>

definition extname :: "string list \<Rightarrow> string" where
  "extname p =
     (if p = [] then []
      else let b = last p; r = takeWhile (\<lambda>c. c \<noteq> CHR ''.'') (rev b)
           in if length r = length b \<or> length r + 1 = length b then []
              else CHR ''.'' # rev r)"

section \<open>The handlers\<close>

text \<open>Each handler is one branch of the chain, in the order of the source. It takes the
  environment, what it reads of the request, and the database; it returns the response and
  the database after its statements.\<close>

text \<open>The first line of every \<^verbatim>\<open>try\<close> block parses the body and destructures it; \<open>None\<close>
  is the \<^verbatim>\<open>catch\<close> branch.\<close>

definition parse_body :: "request \<Rightarrow> (string \<Rightarrow> jsval) option" where
  "parse_body rq = (case rq_body rq of None \<Rightarrow> None | Some b \<Rightarrow> destructure b)"

text \<open>\<^verbatim>\<open>authorizeAdmin\<close>: \<^verbatim>\<open>SELECT role FROM users WHERE id = ?\<close> as statement \<open>k\<close>; the
  callback runs when there is no error, there is a row, and its role is \<^verbatim>\<open>'admin'\<close>.\<close>

definition authorizeAdmin :: "env \<Rightarrow> nat \<Rightarrow> int \<Rightarrow> db \<Rightarrow> bool" where
  "authorizeAdmin e k uid d =
     (case sql_err e k of
        Some x \<Rightarrow> False
      | None \<Rightarrow>
          (case filter (\<lambda>u. u_id u = uid) (users d) of
             [] \<Rightarrow> False
           | u # us \<Rightarrow> u_role u = Some ''admin''))"

definition forbidden :: response where
  "forbidden = err 403 ''Admin access required''"

subsection \<open>Static files under /uploads\<close>

text \<open>The byte range of a \<^verbatim>\<open>Range\<close> request is not modelled, only the status and the file
  that is streamed.\<close>

definition uploads_get :: "env \<Rightarrow> request \<Rightarrow> response" where
  "uploads_get e rq =
     (let absoluteFilePath = path_join (UPLOADS_DIR e) (drop 1 (rq_segs rq))
      in case fs e absoluteFilePath of
           None \<Rightarrow> Plain 404 ''File Not Found''
         | Some nd \<Rightarrow>
             if rq_range rq \<noteq> None \<and> rq_range rq \<noteq> Some []
             then Stream 206 absoluteFilePath
             else Stream 200 absoluteFilePath)"

subsection \<open>Login and signup\<close>

text \<open>A bound parameter that is \<^verbatim>\<open>undefined\<close> or \<^verbatim>\<open>null\<close> is SQL \<^verbatim>\<open>NULL\<close>, which equals
  nothing.\<close>

fun text_matches :: "env \<Rightarrow> json \<Rightarrow> jsval \<Rightarrow> bool" where
  "text_matches e col None = False"
| "text_matches e col (Some JNull) = False"
| "text_matches e col (Some v) = sql_text_eq e col v"

definition safe_user :: "user \<Rightarrow> json" where
  "safe_user u =
     JObj [(''id'', JNum (u_id u)), (''name'', u_name u), (''email'', u_email u),
           (''role'', role_json (u_role u))]"

definition login :: "env \<Rightarrow> request \<Rightarrow> db \<Rightarrow> response" where
  "login e rq d =
     (case parse_body rq of
        None \<Rightarrow> err 400 ''Invalid JSON input''
      | Some f \<Rightarrow>
          (case sql_err e 0 of
             Some x \<Rightarrow> err 500 ''Database error''
           | None \<Rightarrow>
               (case filter (\<lambda>u. text_matches e (u_email u) (f ''email'')) (users d) of
                  [] \<Rightarrow> err 400 ''User not found''
                | u # us \<Rightarrow>
                    (case bcrypt_compare e (f ''password'') (u_password u) of
                       None \<Rightarrow> NoResponse
                     | Some True \<Rightarrow>
                         Json 200 (JObj [(''message'', JStr ''Login successful''),
                                         (''user'', safe_user u)])
                     | Some False \<Rightarrow> err 401 ''Invalid credentials''))))"

definition signup :: "env \<Rightarrow> request \<Rightarrow> db \<Rightarrow> response \<times> db" where
  "signup e rq d =
     (case parse_body rq of
        None \<Rightarrow> (err 400 ''Invalid JSON input'', d)
      | Some f \<Rightarrow>
          if \<not> truthy (f ''name'') \<or> \<not> truthy (f ''email'') \<or> \<not> truthy (f ''password'')
          then (err 400 ''Name, email, and password are required.'', d)
          else
            (case sql_err e 0 of
               Some x \<Rightarrow> (err 500 ''Database error'', d)
             | None \<Rightarrow>
                 if filter (\<lambda>u. text_matches e (u_email u) (f ''email'')) (users d) \<noteq> []
                 then (err 400 ''Email already exists'', d)
                 else
                   (case bcrypt_hash e (opt_json (f ''password'')) of
                      None \<Rightarrow> (NoResponse, d)
                    | Some hashedPassword \<Rightarrow>
                        (case sql_err e 1 of
                           Some x \<Rightarrow> (err 500 ''Failed to register user'', d)
                         | None \<Rightarrow>
                             (msg 201 ''Signup successful'',
                              d\<lparr>users := users d @
                                 [\<lparr>u_id = fresh_id (map u_id (users d)),
                                   u_name = opt_json (f ''name''),
                                   u_email = opt_json (f ''email''),
                                   u_password = hashedPassword,
                                   u_role = default_role e,
                                   u_streak_days = 0,
                                   u_created_at = now e\<rparr>]\<rparr>)))))"

subsection \<open>Sprint progress\<close>

definition progress_entry :: "progress \<Rightarrow> string \<times> json" where
  "progress_entry p =
     (''dynamic-sprint-'' @ dec_int (p_sprint_id p),
      JObj [(''progress'', p_percentage p), (''completed'', JBool (p_is_completed p))])"

definition progress_get :: "env \<Rightarrow> int \<Rightarrow> db \<Rightarrow> response" where
  "progress_get e uid d =
     (case sql_err e 0 of
        Some x \<Rightarrow> err 500 ''Failed to fetch user progress.''
      | None \<Rightarrow>
          Json 200 (JObj (map progress_entry
                            (filter (\<lambda>p. p_user_id p = uid) (sprint_progress d)))))"

text \<open>\<^verbatim>\<open>INSERT ... ON DUPLICATE KEY UPDATE\<close> on the unique key \<^verbatim>\<open>(user_id, sprint_id)\<close>.\<close>

definition upsert_progress :: "int \<Rightarrow> int \<Rightarrow> json \<Rightarrow> bool \<Rightarrow> progress list \<Rightarrow> progress list" where
  "upsert_progress uid sid pct c ps =
     (if filter (\<lambda>p. p_user_id p = uid \<and> p_sprint_id p = sid) ps \<noteq> []
      then map (\<lambda>p. if p_user_id p = uid \<and> p_sprint_id p = sid
                     then p\<lparr>p_percentage := pct, p_is_completed := c\<rparr> else p) ps
      else ps @ [\<lparr>p_user_id = uid, p_sprint_id = sid, p_percentage = pct,
                  p_is_completed = c\<rparr>])"

definition progress_save :: "env \<Rightarrow> int \<Rightarrow> request \<Rightarrow> db \<Rightarrow> response \<times> db" where
  "progress_save e uid rq d =
     (case parse_body rq of
        None \<Rightarrow> (err 400 ''Invalid JSON input for progress update.'', d)
      | Some f \<Rightarrow>
          if \<not> truthy (f ''sprint_id'') \<or> f ''progress_percentage'' = None
             \<or> f ''is_completed'' = None
          then (err 400 ''sprintId, progressPercent, and isCompleted are required.'', d)
          else
            (case sql_err e 0 of
               Some c \<Rightarrow>
                 if c = ER_NO_REFERENCED_ROW_2 \<or> c = ER_BAD_NULL_ERROR
                 then (err 400 ''Validation failed: Sprint or User ID does not exist. (Foreign Key Check Failed)'', d)
                 else (err 500 ''Failed to save sprint progress. Database error logged on server.'', d)
             | None \<Rightarrow>
                 (msg 200 ''Progress saved successfully'',
                  d\<lparr>sprint_progress :=
                      upsert_progress uid (sql_int e (opt_json (f ''sprint_id'')))
                        (opt_json (f ''progress_percentage'')) (truthy (f ''is_completed''))
                        (sprint_progress d)\<rparr>)))"

subsection \<open>Lesson reflections\<close>

definition reflection_json :: "reflection \<Rightarrow> json" where
  "reflection_json r =
     JObj [(''id'', JNum (r_id r)), (''reflection_text'', r_text r),
           (''status'', JStr (r_status r)), (''score'', r_score r),
           (''admin_feedback'', r_admin_feedback r),
           (''submitted_at'', time_json (r_submitted_at r)),
           (''marked_at'', time_json (r_marked_at r)),
           (''created_at'', JNum (int (r_created_at r))),
           (''updated_at'', JNum (int (r_updated_at r)))]"

definition reflection_of :: "int \<Rightarrow> int \<Rightarrow> reflection \<Rightarrow> bool" where
  "reflection_of uid lid r = (r_user_id r = uid \<and> r_lesson_id r = lid)"

definition reflection_get :: "env \<Rightarrow> int \<Rightarrow> string \<Rightarrow> db \<Rightarrow> response" where
  "reflection_get e uid lessonId d =
     (case sql_err e 0 of
        Some x \<Rightarrow> err 500 ''Failed to fetch reflection''
      | None \<Rightarrow>
          (case filter (reflection_of uid (sql_int e (JStr lessonId))) (lesson_reflections d) of
             [] \<Rightarrow>
               Json 200 (JObj [(''reflection_text'', JStr []), (''status'', JStr ''draft''),
                               (''score'', JNull), (''admin_feedback'', JNull),
                               (''submitted_at'', JNull), (''marked_at'', JNull)])
           | r # rs \<Rightarrow> Json 200 (reflection_json r)))"

text \<open>The three statements that write a reflection, at the time \<open>t\<close> of \<^verbatim>\<open>NOW()\<close>. The
  first two are upserts on the unique key \<^verbatim>\<open>(user_id, lesson_id)\<close>; the third is a plain
  \<^verbatim>\<open>UPDATE\<close>, which touches nothing when no row has the key.\<close>

definition new_reflection ::
  "nat \<Rightarrow> int \<Rightarrow> int \<Rightarrow> json \<Rightarrow> string \<Rightarrow> nat option \<Rightarrow> reflection list \<Rightarrow> reflection" where
  "new_reflection t uid lid txt st sub rs =
     \<lparr>r_id = fresh_id (map r_id rs), r_user_id = uid, r_lesson_id = lid, r_text = txt,
      r_status = st, r_score = JNull, r_admin_feedback = JNull, r_submitted_at = sub,
      r_marked_at = None, r_created_at = t, r_updated_at = t\<rparr>"

definition draft_sql :: "nat \<Rightarrow> int \<Rightarrow> int \<Rightarrow> json \<Rightarrow> reflection list \<Rightarrow> reflection list" where
  "draft_sql t uid lid txt rs =
     (if filter (reflection_of uid lid) rs \<noteq> []
      then map (\<lambda>r. if reflection_of uid lid r
                     then r\<lparr>r_text := txt, r_status := ''draft'', r_updated_at := t\<rparr>
                     else r) rs
      else rs @ [new_reflection t uid lid txt ''draft'' None rs])"

definition submit_sql :: "nat \<Rightarrow> int \<Rightarrow> int \<Rightarrow> json \<Rightarrow> reflection list \<Rightarrow> reflection list" where
  "submit_sql t uid lid txt rs =
     (if filter (reflection_of uid lid) rs \<noteq> []
      then map (\<lambda>r. if reflection_of uid lid r
                     then r\<lparr>r_text := txt, r_status := ''submitted'',
                            r_submitted_at := Some t, r_updated_at := t\<rparr>
                     else r) rs
      else rs @ [new_reflection t uid lid txt ''submitted'' (Some t) rs])"

definition resubmit_sql :: "nat \<Rightarrow> int \<Rightarrow> int \<Rightarrow> json \<Rightarrow> reflection list \<Rightarrow> reflection list" where
  "resubmit_sql t uid lid txt rs =
     map (\<lambda>r. if reflection_of uid lid r
               then r\<lparr>r_text := txt, r_status := ''submitted'',
                      r_submitted_at := Some t, r_updated_at := t\<rparr>
               else r) rs"

definition reflection_save :: "env \<Rightarrow> int \<Rightarrow> string \<Rightarrow> request \<Rightarrow> db \<Rightarrow> response \<times> db" where
  "reflection_save e uid lessonId rq d =
     (case parse_body rq of
        None \<Rightarrow> (err 400 ''Invalid JSON input'', d)
      | Some f \<Rightarrow>
          if \<not> truthy (f ''reflection_text'')
          then (err 400 ''Reflection text is required'', d)
          else
            (case sql_err e 0 of
               Some x \<Rightarrow> (err 500 ''Failed to save reflection'', d)
             | None \<Rightarrow>
                 (msg 200 ''Reflection saved as draft'',
                  d\<lparr>lesson_reflections :=
                      draft_sql (now e) uid (sql_int e (JStr lessonId))
                        (opt_json (f ''reflection_text'')) (lesson_reflections d)\<rparr>)))"

text \<open>\<^verbatim>\<open>!reflection_text?.trim()\<close>: \<^verbatim>\<open>undefined\<close> and \<^verbatim>\<open>null\<close> stop at \<^verbatim>\<open>?.\<close> and count as
  empty; a string is trimmed; any other value has no \<^verbatim>\<open>trim\<close> method, and the call throws
  into the \<^verbatim>\<open>catch\<close> branch.\<close>

datatype text_check = TextThrows | TextEmpty | TextOk

fun check_text :: "jsval \<Rightarrow> text_check" where
  "check_text None = TextEmpty"
| "check_text (Some JNull) = TextEmpty"
| "check_text (Some (JStr s)) = (if trim s = [] then TextEmpty else TextOk)"
| "check_text (Some v) = TextThrows"

definition reflection_submit :: "env \<Rightarrow> int \<Rightarrow> string \<Rightarrow> request \<Rightarrow> db \<Rightarrow> response \<times> db" where
  "reflection_submit e uid lessonId rq d =
     (case parse_body rq of
        None \<Rightarrow> (err 400 ''Invalid JSON input'', d)
      | Some f \<Rightarrow>
          (case check_text (f ''reflection_text'') of
             TextThrows \<Rightarrow> (err 400 ''Invalid JSON input'', d)
           | TextEmpty \<Rightarrow> (err 400 ''Reflection text cannot be empty'', d)
           | TextOk \<Rightarrow>
               (case sql_err e 0 of
                  Some x \<Rightarrow> (err 500 ''Failed to submit reflection'', d)
                | None \<Rightarrow>
                    (msg 200 ''Reflection submitted for marking'',
                     d\<lparr>lesson_reflections :=
                         submit_sql (now e) uid (sql_int e (JStr lessonId))
                           (opt_json (f ''reflection_text'')) (lesson_reflections d)\<rparr>))))"

definition reflection_resubmit :: "env \<Rightarrow> int \<Rightarrow> string \<Rightarrow> request \<Rightarrow> db \<Rightarrow> response \<times> db" where
  "reflection_resubmit e uid lessonId rq d =
     (case parse_body rq of
        None \<Rightarrow> (err 400 ''Invalid JSON input'', d)
      | Some f \<Rightarrow>
          (case check_text (f ''reflection_text'') of
             TextThrows \<Rightarrow> (err 400 ''Invalid JSON input'', d)
           | TextEmpty \<Rightarrow> (err 400 ''Reflection text cannot be empty'', d)
           | TextOk \<Rightarrow>
               (case sql_err e 0 of
                  Some x \<Rightarrow> (err 500 ''Failed to resubmit reflection'', d)
                | None \<Rightarrow>
                    (let lid = sql_int e (JStr lessonId);
                         affectedRows = length (filter (reflection_of uid lid)
                                                  (lesson_reflections d));
                         d' = d\<lparr>lesson_reflections :=
                                  resubmit_sql (now e) uid lid
                                    (opt_json (f ''reflection_text'')) (lesson_reflections d)\<rparr>
                     in if affectedRows = 0
                        then (err 404 ''Reflection not found'', d')
                        else (msg 200 ''Reflection resubmitted for marking'', d')))))"

text \<open>The grading queue: the submitted reflections joined with their user and their
  lesson, oldest submission first (a \<^verbatim>\<open>NULL\<close> time sorts first).\<close>

definition col :: "lesson \<Rightarrow> string \<Rightarrow> json" where
  "col l k = opt_json (map_of (l_cols l) k)"

definition submitted_row :: "reflection \<Rightarrow> user \<Rightarrow> lesson \<Rightarrow> json" where
  "submitted_row r u l =
     JObj [(''id'', JNum (r_id r)), (''user_id'', JNum (r_user_id r)),
           (''lesson_id'', JNum (r_lesson_id r)), (''reflection_text'', r_text r),
           (''status'', JStr (r_status r)), (''score'', r_score r),
           (''admin_feedback'', r_admin_feedback r),
           (''submitted_at'', time_json (r_submitted_at r)),
           (''marked_at'', time_json (r_marked_at r)),
           (''created_at'', JNum (int (r_created_at r))),
           (''updated_at'', JNum (int (r_updated_at r))),
           (''user_name'', u_name u), (''user_email'', u_email u),
           (''lesson_title'', col l ''title''),
           (''lesson_description'', col l ''description'')]"

definition submitted_rows :: "db \<Rightarrow> json list" where
  "submitted_rows d =
     concat (map (\<lambda>r.
        concat (map (\<lambda>u. map (submitted_row r u)
                             (filter (\<lambda>l. l_id l = r_lesson_id r) (lessons d)))
                    (filter (\<lambda>u. u_id u = r_user_id r) (users d))))
       (sort_key (\<lambda>r. case r_submitted_at r of None \<Rightarrow> 0 | Some t \<Rightarrow> Suc t)
          (filter (\<lambda>r. r_status r = ''submitted'') (lesson_reflections d))))"

definition reflections_submitted :: "env \<Rightarrow> int \<Rightarrow> db \<Rightarrow> response" where
  "reflections_submitted e uid d =
     (if \<not> authorizeAdmin e 0 uid d then forbidden
      else case sql_err e 1 of
             Some x \<Rightarrow> err 500 ''Failed to fetch submitted reflections''
           | None \<Rightarrow> Json 200 (JArr (submitted_rows d)))"

text \<open>\<^verbatim>\<open>score < 0 || score > 10\<close> converts the score to a number: \<^verbatim>\<open>null\<close> is 0, a boolean is
  0 or 1, a string goes through the environment's conversion, and arrays and objects go
  through their string. A comparison with \<^verbatim>\<open>NaN\<close> is false.\<close>

fun js_number :: "env \<Rightarrow> json \<Rightarrow> jsnum" where
  "js_number e JNull = Num 0"
| "js_number e (JBool b) = Num (if b then 1 else 0)"
| "js_number e (JNum n) = Num n"
| "js_number e (JStr s) = to_number e s"
| "js_number e v = to_number e (js_to_string v)"

fun num_lt :: "jsnum \<Rightarrow> int \<Rightarrow> bool" where
  "num_lt NaN k = False"
| "num_lt (Num n) k = (n < k)"

fun num_gt :: "jsnum \<Rightarrow> int \<Rightarrow> bool" where
  "num_gt NaN k = False"
| "num_gt (Num n) k = (n > k)"

fun str_of :: "jsval \<Rightarrow> string" where
  "str_of (Some (JStr s)) = s"
| "str_of v = []"

text \<open>\<^verbatim>\<open>UPDATE lesson_reflections SET score = ?, admin_feedback = ?, status = ?,
  marked_at = NOW(), updated_at = NOW() WHERE id = ?\<close>.\<close>

definition mark_sql ::
  "nat \<Rightarrow> int \<Rightarrow> json \<Rightarrow> json \<Rightarrow> string \<Rightarrow> reflection list \<Rightarrow> reflection list" where
  "mark_sql t rid score feedback st rs =
     map (\<lambda>r. if r_id r = rid
               then r\<lparr>r_score := score, r_admin_feedback := feedback, r_status := st,
                      r_marked_at := Some t, r_updated_at := t\<rparr>
               else r) rs"

definition reflections_mark :: "env \<Rightarrow> int \<Rightarrow> request \<Rightarrow> db \<Rightarrow> response \<times> db" where
  "reflections_mark e uid rq d =
     (if \<not> authorizeAdmin e 0 uid d then (forbidden, d)
      else case parse_body rq of
        None \<Rightarrow> (err 400 ''Invalid JSON input'', d)
      | Some f \<Rightarrow>
          (let reflection_id = f ''reflection_id''; score = f ''score'';
               admin_feedback = f ''admin_feedback''; status = f ''status''
           in if \<not> truthy reflection_id \<or> score = None \<or> \<not> truthy admin_feedback
              then (err 400 ''Reflection ID, score, and feedback are required'', d)
              else if num_lt (js_number e (opt_json score)) 0
                      \<or> num_gt (js_number e (opt_json score)) 10
              then (err 400 ''Score must be between 0 and 10'', d)
              else if \<not> (status = Some (JStr ''marked'') \<or> status = Some (JStr ''rejected''))
              then (err 400 (''Status must be 'marked' or 'rejected'' @ [CHR 0x27]), d)
              else
                (case sql_err e 1 of
                   Some x \<Rightarrow> (err 500 ''Failed to mark reflection'', d)
                 | None \<Rightarrow>
                     (let rid = sql_int e (opt_json reflection_id);
                          affectedRows = length (filter (\<lambda>r. r_id r = rid)
                                                   (lesson_reflections d));
                          d' = d\<lparr>lesson_reflections :=
                                   mark_sql (now e) rid (opt_json score)
                                     (opt_json admin_feedback) (str_of status)
                                     (lesson_reflections d)\<rparr>
                      in if affectedRows = 0
                         then (err 404 ''Reflection not found'', d')
                         else (msg 200 ''Reflection marked successfully'', d')))))"

subsection \<open>User notes\<close>

definition note_of :: "env \<Rightarrow> int \<Rightarrow> jsval \<Rightarrow> jsval \<Rightarrow> user_note \<Rightarrow> bool" where
  "note_of e uid ct cid n =
     (n_user_id n = uid \<and> text_matches e (n_content_type n) ct
      \<and> text_matches e (n_content_id n) cid)"

definition notes_get :: "env \<Rightarrow> int \<Rightarrow> string \<Rightarrow> string \<Rightarrow> db \<Rightarrow> response" where
  "notes_get e uid contentType contentId d =
     (case sql_err e 0 of
        Some x \<Rightarrow> err 500 ''Failed to fetch user notes.''
      | None \<Rightarrow>
          (case filter (note_of e uid (Some (JStr contentType)) (Some (JStr contentId)))
                  (user_notes d) of
             [] \<Rightarrow> Json 200 (JObj [(''note_text'', JStr [])])
           | n # ns \<Rightarrow> Json 200 (JObj [(''note_text'', n_text n)])))"

definition upsert_note ::
  "env \<Rightarrow> int \<Rightarrow> jsval \<Rightarrow> jsval \<Rightarrow> json \<Rightarrow> user_note list \<Rightarrow> user_note list" where
  "upsert_note e uid ct cid txt ns =
     (if filter (note_of e uid ct cid) ns \<noteq> []
      then map (\<lambda>n. if note_of e uid ct cid n
                     then n\<lparr>n_text := txt, n_updated_at := now e\<rparr> else n) ns
      else ns @ [\<lparr>n_user_id = uid, n_content_type = opt_json ct, n_content_id = opt_json cid,
                  n_text = txt, n_updated_at = now e\<rparr>])"

text \<open>The message depends on the error code; the status is 500 for every code.\<close>

definition notes_save :: "env \<Rightarrow> int \<Rightarrow> request \<Rightarrow> db \<Rightarrow> response \<times> db" where
  "notes_save e uid rq d =
     (case parse_body rq of
        None \<Rightarrow> (err 400 ''Invalid JSON input for note update.'', d)
      | Some f \<Rightarrow>
          if \<not> truthy (f ''contentType'') \<or> f ''contentId'' = None \<or> f ''noteText'' = None
          then (err 400 ''contentType, contentId, and noteText are required.'', d)
          else
            (case sql_err e 0 of
               Some c \<Rightarrow>
                 (let clientError =
                        (if c = ER_NO_REFERENCED_ROW_2 \<or> c = ER_BAD_NULL_ERROR
                         then ''Error saving note: Validation failed. Content or User ID does not exist. (Foreign Key Check Failed)''
                         else if c = ER_DUP_ENTRY
                         then ''Error saving note: Duplicate content entry. (Unique Key Check Failed)''
                         else ''Failed to save user note (Database error). Please check server logs.'')
                  in (err 500 clientError, d))
             | None \<Rightarrow>
                 (msg 200 ''Note saved successfully'',
                  d\<lparr>user_notes :=
                      upsert_note e uid (f ''contentType'') (f ''contentId'')
                        (opt_json (f ''noteText'')) (user_notes d)\<rparr>)))"

subsection \<open>Sprints\<close>

definition sprint_json :: "sprint \<Rightarrow> json" where
  "sprint_json s =
     JObj [(''id'', JNum (s_id s)), (''title'', s_title s),
           (''description'', s_description s), (''video_url'', s_video_url s),
           (''max_duration_seconds'', JNum (s_max_duration_seconds s)),
           (''is_active'', JBool (s_is_active s)),
           (''thumbnail_url'', s_thumbnail_url s)]"

definition sprints_get :: "env \<Rightarrow> db \<Rightarrow> response" where
  "sprints_get e d =
     (case sql_err e 0 of
        Some x \<Rightarrow> err 500 ''Failed to fetch sprints.''
      | None \<Rightarrow> Json 200 (JArr (map sprint_json (rev (sort_key s_created_at (sprints d))))))"

text \<open>\<^verbatim>\<open>parseInt(max_duration_minutes, 10) * 60\<close>, then the two corrections: 600 when the
  product is \<^verbatim>\<open>NaN\<close> or not positive, 3600 when it is above 3600.\<close>

fun times60 :: "jsnum \<Rightarrow> jsnum" where
  "times60 NaN = NaN"
| "times60 (Num n) = Num (n * 60)"

fun maxDurationSeconds :: "jsnum \<Rightarrow> int" where
  "maxDurationSeconds NaN = (600::int)"
| "maxDurationSeconds (Num s) =
     (let s1 = (if s \<le> 0 then 600 else s) in if s1 > 3600 then 3600 else s1)"

text \<open>\<^verbatim>\<open>thumbnail_url || null\<close>.\<close>

definition or_null :: "jsval \<Rightarrow> json" where
  "or_null v = (if truthy v then opt_json v else JNull)"

definition sprint_create :: "env \<Rightarrow> request \<Rightarrow> db \<Rightarrow> response \<times> db" where
  "sprint_create e rq d =
     (case parse_body rq of
        None \<Rightarrow> (err 400 ''Invalid JSON input for sprint creation.'', d)
      | Some f \<Rightarrow>
          if \<not> truthy (f ''title'') \<or> \<not> truthy (f ''description'')
             \<or> \<not> truthy (f ''video_url'') \<or> f ''max_duration_minutes'' = None
          then (err 400 ''Title, description, video URL (or simulated path), and max duration are required.'', d)
          else
            (let secs = maxDurationSeconds
                          (times60 (parseInt_val (opt_json (f ''max_duration_minutes''))))
             in case sql_err e 0 of
                  Some x \<Rightarrow> (err 500 ''Failed to create new sprint in database.'', d)
                | None \<Rightarrow>
                    (let insertId = fresh_id (map s_id (sprints d))
                     in (Json 201
                           (JObj [(''message'', JStr ''Sprint created successfully''),
                                  (''id'', JNum insertId),
                                  (''title'', opt_json (f ''title'')),
                                  (''description'', opt_json (f ''description'')),
                                  (''video_url'', opt_json (f ''video_url'')),
                                  (''max_duration_seconds'', JNum secs),
                                  (''is_active'', JBool False),
                                  (''thumbnail_url'', or_null (f ''thumbnail_url''))]),
                         d\<lparr>sprints := sprints d @
                            [\<lparr>s_id = insertId, s_title = opt_json (f ''title''),
                              s_description = opt_json (f ''description''),
                              s_video_url = opt_json (f ''video_url''),
                              s_max_duration_seconds = secs, s_is_active = False,
                              s_thumbnail_url = or_null (f ''thumbnail_url''),
                              s_created_at = now e\<rparr>]\<rparr>))))"

definition sprint_delete :: "env \<Rightarrow> string \<Rightarrow> db \<Rightarrow> response \<times> db" where
  "sprint_delete e sprintId d =
     (case sql_err e 0 of
        Some x \<Rightarrow> (err 500 ''Failed to delete sprint'', d)
      | None \<Rightarrow>
          (let sid = sql_int e (JStr sprintId);
               affectedRows = length (filter (\<lambda>s. s_id s = sid) (sprints d));
               d' = d\<lparr>sprints := filter (\<lambda>s. s_id s \<noteq> sid) (sprints d)\<rparr>
           in if affectedRows = 0 then (err 404 ''Sprint not found'', d')
              else (Empty 204, d')))"

text \<open>\<^verbatim>\<open>updateActiveStatus\<close>: \<^verbatim>\<open>UPDATE sprints SET is_active = ? WHERE id = ?\<close> as statement
  \<open>k\<close>. The handler answers 404 when the error message contains \<^verbatim>\<open>not found\<close>, which is
  the case of no affected row, and 500 for the other error.\<close>

definition updateActiveStatus :: "env \<Rightarrow> nat \<Rightarrow> bool \<Rightarrow> int \<Rightarrow> db \<Rightarrow> response \<times> db" where
  "updateActiveStatus e k active sid d =
     (case sql_err e k of
        Some x \<Rightarrow> (err 500 ''Failed to update sprint status'', d)
      | None \<Rightarrow>
          (let affectedRows = length (filter (\<lambda>s. s_id s = sid) (sprints d));
               d' = d\<lparr>sprints := map (\<lambda>s. if s_id s = sid then s\<lparr>s_is_active := active\<rparr>
                                            else s) (sprints d)\<rparr>
           in if affectedRows = 0 then (err 404 ''Sprint not found'', d')
              else (Json 200
                      (JObj [(''message'',
                              JStr (if active then ''Sprint set as active successfully''
                                    else ''Sprint set as inactive successfully'')),
                             (''is_active'', JBool active)]),
                    d')))"

text \<open>\<^verbatim>\<open>UPDATE sprints SET is_active = 0 WHERE id != ?\<close>; its error is logged and the handler
  goes on.\<close>

definition deactivate_others :: "env \<Rightarrow> int \<Rightarrow> db \<Rightarrow> db" where
  "deactivate_others e sid d =
     (case sql_err e 0 of
        Some x \<Rightarrow> d
      | None \<Rightarrow> d\<lparr>sprints := map (\<lambda>s. if s_id s \<noteq> sid then s\<lparr>s_is_active := False\<rparr>
                                      else s) (sprints d)\<rparr>)"

definition sprint_toggle :: "env \<Rightarrow> string \<Rightarrow> request \<Rightarrow> db \<Rightarrow> response \<times> db" where
  "sprint_toggle e sprintId rq d =
     (case parse_body rq of
        None \<Rightarrow> (err 400 ''Invalid JSON input for sprint status update'', d)
      | Some f \<Rightarrow>
          (let shouldActivate = truthy (f ''shouldActivate'');
               sid = sql_int e (JStr sprintId)
           in if shouldActivate
              then updateActiveStatus e 1 True sid (deactivate_others e sid d)
              else updateActiveStatus e 0 False sid d))"

subsection \<open>Categories and lessons\<close>

text \<open>Rows that the database sorts by a text column are listed in table order: the
  order of a collation is not modelled.\<close>

definition category_json :: "category \<Rightarrow> json" where
  "category_json c = JObj [(''id'', JNum (c_id c)), (''name'', c_name c)]"

definition categories_get :: "env \<Rightarrow> db \<Rightarrow> response" where
  "categories_get e d =
     (case sql_err e 0 of
        Some x \<Rightarrow> err 500 ''Failed to fetch categories. (Check DB schema: 'skill_categories' table).''
      | None \<Rightarrow> Json 200 (JArr (map category_json (skill_categories d))))"

definition category_create :: "env \<Rightarrow> request \<Rightarrow> db \<Rightarrow> response \<times> db" where
  "category_create e rq d =
     (case parse_body rq of
        None \<Rightarrow> (err 400 ''Invalid JSON input for category creation.'', d)
      | Some f \<Rightarrow>
          if \<not> truthy (f ''name'') then (err 400 ''Category name is required.'', d)
          else
            (case sql_err e 0 of
               Some c \<Rightarrow>
                 if c = ER_DUP_ENTRY then (err 409 ''Category already exists.'', d)
                 else (err 500 ''Failed to create new category.'', d)
             | None \<Rightarrow>
                 (let insertId = fresh_id (map c_id (skill_categories d))
                  in (Json 201 (JObj [(''message'', JStr ''Category created successfully''),
                                      (''id'', JNum insertId),
                                      (''name'', opt_json (f ''name''))]),
                      d\<lparr>skill_categories := skill_categories d @
                         [\<lparr>c_id = insertId, c_name = opt_json (f ''name'')\<rparr>]\<rparr>))))"

definition category_delete :: "env \<Rightarrow> string \<Rightarrow> db \<Rightarrow> response \<times> db" where
  "category_delete e categoryId d =
     (case sql_err e 0 of
        Some x \<Rightarrow> (err 500 ''Failed to delete category (Ensure no lessons are using it).'', d)
      | None \<Rightarrow>
          (let cid = sql_int e (JStr categoryId);
               affectedRows = length (filter (\<lambda>c. c_id c = cid) (skill_categories d));
               d' = d\<lparr>skill_categories := filter (\<lambda>c. c_id c \<noteq> cid) (skill_categories d)\<rparr>
           in if affectedRows = 0 then (err 404 ''Category not found'', d')
              else (Empty 204, d')))"

text \<open>A lesson as the two \<^verbatim>\<open>SELECT\<close>s return it; \<^verbatim>\<open>skill_category\<close> is the name of the
  category that the \<^verbatim>\<open>LEFT JOIN\<close> finds, \<^verbatim>\<open>NULL\<close> when there is none.\<close>

definition category_name :: "env \<Rightarrow> db \<Rightarrow> lesson \<Rightarrow> json" where
  "category_name e d l =
     (if col l ''skill_category_id'' = JNull then JNull
      else case filter (\<lambda>c. c_id c = sql_int e (col l ''skill_category_id''))
                  (skill_categories d) of
             [] \<Rightarrow> JNull
           | c # cs \<Rightarrow> c_name c)"

definition lesson_json :: "env \<Rightarrow> db \<Rightarrow> lesson \<Rightarrow> json" where
  "lesson_json e d l =
     JObj [(''id'', JNum (l_id l)), (''title'', col l ''title''),
           (''code_snippet'', col l ''code_snippet''),
           (''description'', col l ''description''),
           (''challenge'', col l ''challenge''), (''reflection'', col l ''reflection''),
           (''skill_category'', category_name e d l), (''level'', col l ''level''),
           (''created_at'', JNum (int (l_created_at l)))]"

definition lessons_get :: "env \<Rightarrow> db \<Rightarrow> response" where
  "lessons_get e d =
     (case sql_err e 0 of
        Some x \<Rightarrow> err 500 ''Failed to fetch lessons.''
      | None \<Rightarrow>
          Json 200 (JArr (map (lesson_json e d) (rev (sort_key l_created_at (lessons d))))))"

definition lesson_get :: "env \<Rightarrow> string \<Rightarrow> db \<Rightarrow> response" where
  "lesson_get e lessonId d =
     (case sql_err e 0 of
        Some x \<Rightarrow> err 500 ''Failed to fetch lesson.''
      | None \<Rightarrow>
          (case filter (\<lambda>l. l_id l = sql_int e (JStr lessonId)) (lessons d) of
             [] \<Rightarrow> err 404 ''Lesson not found''
           | l # ls \<Rightarrow> Json 200 (lesson_json e d l)))"

text \<open>A destructuring default applies to \<^verbatim>\<open>undefined\<close> only.\<close>

fun with_default :: "jsval \<Rightarrow> json \<Rightarrow> json" where
  "with_default None dflt = dflt"
| "with_default (Some v) dflt = v"

definition lesson_fields :: "(string \<Rightarrow> jsval) \<Rightarrow> (string \<times> json) list" where
  "lesson_fields f =
     [(''title'', opt_json (f ''title'')),
      (''code_snippet'', with_default (f ''code_snippet'') JNull),
      (''description'', with_default (f ''description'') JNull),
      (''challenge'', with_default (f ''challenge'') JNull),
      (''reflection'', with_default (f ''reflection'') JNull),
      (''skill_category_id'', with_default (f ''skill_category_id'') JNull),
      (''level'', with_default (f ''level'') (JStr ''beginner''))]"

definition lesson_create :: "env \<Rightarrow> request \<Rightarrow> db \<Rightarrow> response \<times> db" where
  "lesson_create e rq d =
     (case parse_body rq of
        None \<Rightarrow> (err 400 ''Invalid JSON input for lesson creation.'', d)
      | Some f \<Rightarrow>
          if \<not> truthy (f ''title'') \<or> \<not> truthy (Some (with_default (f ''description'') JNull))
          then (err 400 ''Title and description are required for a lesson.'', d)
          else
            (case sql_err e 0 of
               Some x \<Rightarrow> (err 500 ''Failed to create lesson.'', d)
             | None \<Rightarrow>
                 (let insertId = fresh_id (map l_id (lessons d))
                  in (Json 201 (JObj ([(''message'', JStr ''Lesson created successfully''),
                                       (''id'', JNum insertId)] @ lesson_fields f)),
                      d\<lparr>lessons := lessons d @
                         [\<lparr>l_id = insertId, l_cols = lesson_fields f,
                           l_created_at = now e\<rparr>]\<rparr>))))"

text \<open>The update sets the allowed fields that the payload defines, and
  \<^verbatim>\<open>skill_category\<close> when it is defined.\<close>

definition provided :: "(string \<Rightarrow> jsval) \<Rightarrow> (string \<times> json) list" where
  "provided f =
     concat (map (\<lambda>k. case f k of None \<Rightarrow> [] | Some v \<Rightarrow> [(k, v)])
       [''title'', ''code_snippet'', ''description'', ''challenge'', ''reflection'',
        ''skill_category_id'', ''level'', ''skill_category''])"

fun set_cols :: "(string \<times> json) list \<Rightarrow> (string \<times> json) list \<Rightarrow> (string \<times> json) list" where
  "set_cols [] cols = cols"
| "set_cols ((k, v) # kvs) cols = set_cols kvs ((k, v) # filter (\<lambda>c. fst c \<noteq> k) cols)"

definition lesson_update :: "env \<Rightarrow> string \<Rightarrow> request \<Rightarrow> db \<Rightarrow> response \<times> db" where
  "lesson_update e lessonId rq d =
     (case parse_body rq of
        None \<Rightarrow> (err 400 ''Invalid JSON input for lesson update.'', d)
      | Some f \<Rightarrow>
          if provided f = [] then (err 400 ''No fields provided to update.'', d)
          else
            (case sql_err e 0 of
               Some x \<Rightarrow> (err 500 ''Failed to update lesson.'', d)
             | None \<Rightarrow>
                 (let lid = sql_int e (JStr lessonId);
                      affectedRows = length (filter (\<lambda>l. l_id l = lid) (lessons d));
                      d' = d\<lparr>lessons := map (\<lambda>l. if l_id l = lid
                                                  then l\<lparr>l_cols := set_cols (provided f) (l_cols l)\<rparr>
                                                  else l) (lessons d)\<rparr>
                  in if affectedRows = 0 then (err 404 ''Lesson not found.'', d')
                     else (Json 200 (JObj [(''message'', JStr ''Lesson updated successfully''),
                                           (''id'', JStr lessonId)]), d'))))"

definition lesson_delete :: "env \<Rightarrow> string \<Rightarrow> db \<Rightarrow> response \<times> db" where
  "lesson_delete e lessonId d =
     (case sql_err e 0 of
        Some x \<Rightarrow> (err 500 ''Failed to delete lesson'', d)
      | None \<Rightarrow>
          (let lid = sql_int e (JStr lessonId);
               affectedRows = length (filter (\<lambda>l. l_id l = lid) (lessons d));
               d' = d\<lparr>lessons := filter (\<lambda>l. l_id l \<noteq> lid) (lessons d)\<rparr>
           in if affectedRows = 0 then (err 404 ''Lesson not found'', d')
              else (Empty 204, d')))"

subsection \<open>Users\<close>

text \<open>The statistics of a user. When \<^verbatim>\<open>authenticate\<close> fails, its 401 is on the wire before
  the handler tries to send the 403. The row of the aggregate query exists exactly when the
  user does.\<close>

definition user_stats :: "env \<Rightarrow> request \<Rightarrow> db \<Rightarrow> response" where
  "user_stats e rq d =
     (let requestedUserId = parseInt (rq_segs rq ! 2);
          userId = userId_of (rq_user_id rq)
      in if \<not> authenticate userId then unauthenticated
         else if Some requestedUserId \<noteq> userId
         then err 403 ''Forbidden. You can only view your own stats.''
         else case sql_err e 0 of
                Some x \<Rightarrow>
                  Json 500 (JObj [(''error'', JStr ''Failed to fetch user stats from DB''),
                                  (''totalSprints'', JNum 12), (''completedSprints'', JNum 6),
                                  (''totalMinutes'', JNum 342), (''streakDays'', JNum 7),
                                  (''weeklyProgress'', JNum 75), (''learningHours'', JNum 28)])
              | None \<Rightarrow>
                  if filter (\<lambda>u. u_id u = uid_int userId) (users d) = []
                  then err 404 ''User not found.''
                  else Json 200 (stats_body e (uid_int userId)))"

text \<open>The listing of users. Its first query reads
  \<^verbatim>\<open>COALESCE(role, CASE WHEN id = 1 THEN 'admin' ELSE 'user' END)\<close>; when the database
  answers \<^verbatim>\<open>ER_BAD_FIELD_ERROR\<close> a second query reads the \<^verbatim>\<open>CASE\<close> alone.\<close>

definition id1_role :: "user \<Rightarrow> string" where
  "id1_role u = (if u_id u = 1 then ''admin'' else ''user'')"

definition coalesce_role :: "user \<Rightarrow> string" where
  "coalesce_role u = (case u_role u of Some r \<Rightarrow> r | None \<Rightarrow> id1_role u)"

definition user_json :: "(user \<Rightarrow> string) \<Rightarrow> user \<Rightarrow> json" where
  "user_json role u =
     JObj [(''id'', JNum (u_id u)), (''name'', u_name u), (''email'', u_email u),
           (''streak_days'', JNum (u_streak_days u)),
           (''created_at'', JNum (int (u_created_at u))), (''role'', JStr (role u))]"

definition users_get :: "env \<Rightarrow> db \<Rightarrow> response" where
  "users_get e d =
     (case sql_err e 0 of
        None \<Rightarrow> Json 200 (JArr (map (user_json coalesce_role) (users d)))
      | Some c \<Rightarrow>
          if c = ER_BAD_FIELD_ERROR
          then (case sql_err e 1 of
                  Some x \<Rightarrow> err 500 ''Failed to fetch user data (Fallback error).''
                | None \<Rightarrow> Json 200 (JArr (map (user_json id1_role) (users d))))
          else err 500 ''Failed to fetch user data'')"

text \<open>Only the row of the user is removed here: what the schema cascades to is not in
  the source.\<close>

definition user_delete :: "env \<Rightarrow> string \<Rightarrow> db \<Rightarrow> response \<times> db" where
  "user_delete e userIdToDelete d =
     (case sql_err e 0 of
        Some x \<Rightarrow> (err 500 ''Failed to delete user'', d)
      | None \<Rightarrow>
          (let uid = sql_int e (JStr userIdToDelete);
               affectedRows = length (filter (\<lambda>u. u_id u = uid) (users d));
               d' = d\<lparr>users := filter (\<lambda>u. u_id u \<noteq> uid) (users d)\<rparr>
           in if affectedRows = 0 then (err 404 ''User not found'', d')
              else (Empty 204, d')))"

definition user_role :: "env \<Rightarrow> string \<Rightarrow> request \<Rightarrow> db \<Rightarrow> response \<times> db" where
  "user_role e userIdToUpdate rq d =
     (case parse_body rq of
        None \<Rightarrow> (err 400 ''Invalid JSON input for role update'', d)
      | Some f \<Rightarrow>
          (let newRole = f ''newRole''
           in if \<not> (newRole = Some (JStr ''admin'') \<or> newRole = Some (JStr ''user''))
              then (err 400 (''Invalid role provided. Must be 'admin' or 'user'' @ [CHR 0x27, CHR ''.'']), d)
              else
                (case sql_err e 0 of
                   Some c \<Rightarrow>
                     if c = ER_BAD_FIELD_ERROR
                     then (err 500 ''Database configuration error: 'role' column likely missing in 'users' table.'', d)
                     else (err 500 ''Failed to update user role'', d)
                 | None \<Rightarrow>
                     (let uid = sql_int e (JStr userIdToUpdate);
                          affectedRows = length (filter (\<lambda>u. u_id u = uid) (users d));
                          d' = d\<lparr>users := map (\<lambda>u. if u_id u = uid
                                                    then u\<lparr>u_role := Some (str_of newRole)\<rparr>
                                                    else u) (users d)\<rparr>
                      in if affectedRows = 0 then (err 404 ''User not found'', d')
                         else (Json 200 (JObj [(''message'', JStr ''Role updated successfully''),
                                               (''newRole'', opt_json newRole)]), d')))))"

subsection \<open>The front-end build\<close>

definition to_lower :: "char \<Rightarrow> char" where
  "to_lower c =
     (if 65 \<le> (of_char c :: nat) \<and> (of_char c :: nat) \<le> 90
      then char_of ((of_char c :: nat) + 32) else c)"

definition mime_of :: "string \<Rightarrow> string" where
  "mime_of ext =
     (if ext = ''.css'' then ''text/css''
      else if ext = ''.js'' \<or> ext = ''.mjs'' then ''application/javascript''
      else if ext = ''.png'' \<or> ext = ''.jpg'' \<or> ext = ''.jpeg'' \<or> ext = ''.gif''
      then ''image/'' @ drop 1 ext
      else ''text/html'')"

text \<open>A file of the build is sent as it is; anything else falls back to \<^verbatim>\<open>index.html\<close>.
  Reading a path that is a directory fails.\<close>

definition static_get :: "env \<Rightarrow> request \<Rightarrow> response" where
  "static_get e rq =
     (let absoluteFilePath = path_join (FRONTEND_DIR e) (rq_segs rq)
      in if fs e absoluteFilePath = Some File
         then Content 200 (mime_of (map to_lower (extname absoluteFilePath))) absoluteFilePath
         else
           (let filePathToServe = path_join (FRONTEND_DIR e) [''index.html'']
            in case fs e filePathToServe of
                 None \<Rightarrow> err 404 ''Route not found (and index.html missing for SPA fallback)''
               | Some Dir \<Rightarrow> err 500 ''Server error reading file.''
               | Some File \<Rightarrow> Content 200 ''text/html'' filePathToServe))"

section \<open>The dispatcher\<close>

text \<open>The conditions of the chain, in the order of the source; the first that holds
  selects the branch. \<^verbatim>\<open>OPTIONS\<close> is answered before the chain.\<close>

datatype route =
    R_options | R_uploads | R_login | R_signup
  | R_progress_get | R_progress_save
  | R_reflection_get | R_reflection_save | R_reflection_submit | R_reflection_resubmit
  | R_reflections_submitted | R_reflections_mark
  | R_notes_get | R_notes_save
  | R_sprints_get | R_sprint_create | R_sprint_delete | R_sprint_toggle
  | R_categories_get | R_category_create | R_category_delete
  | R_lessons_get | R_lesson_get | R_lesson_create | R_lesson_update | R_lesson_delete
  | R_user_stats | R_users_get | R_user_delete | R_user_role
  | R_static | R_not_found

definition route_of :: "request \<Rightarrow> route" where
  "route_of rq =
     (let m = rq_method rq; segs = rq_segs rq; n = length segs
      in if m = ''OPTIONS'' then R_options
         else if take 1 segs = [''uploads''] \<and> m = ''GET'' then R_uploads
         else if segs = [''login''] \<and> m = ''POST'' then R_login
         else if segs = [''signup''] \<and> m = ''POST'' then R_signup
         else if segs = [''api'', ''progress''] \<and> m = ''GET'' then R_progress_get
         else if segs = [''api'', ''progress''] \<and> (m = ''POST'' \<or> m = ''PUT'')
         then R_progress_save
         else if n = 4 \<and> segs ! 0 = ''api'' \<and> segs ! 1 = ''lessons''
                 \<and> segs ! 3 = ''reflection'' \<and> m = ''GET'' then R_reflection_get
         else if n = 4 \<and> segs ! 0 = ''api'' \<and> segs ! 1 = ''lessons''
                 \<and> segs ! 3 = ''reflection'' \<and> m = ''POST'' then R_reflection_save
         else if n = 5 \<and> segs ! 0 = ''api'' \<and> segs ! 1 = ''lessons''
                 \<and> segs ! 3 = ''reflection'' \<and> segs ! 4 = ''submit'' \<and> m = ''POST''
         then R_reflection_submit
         else if n = 5 \<and> segs ! 0 = ''api'' \<and> segs ! 1 = ''lessons''
                 \<and> segs ! 3 = ''reflection'' \<and> segs ! 4 = ''resubmit'' \<and> m = ''POST''
         then R_reflection_resubmit
         else if segs = [''api'', ''reflections'', ''submitted''] \<and> m = ''GET''
         then R_reflections_submitted
         else if n = 3 \<and> segs ! 0 = ''api'' \<and> segs ! 1 = ''reflections''
                 \<and> segs ! 2 = ''mark'' \<and> m = ''POST'' then R_reflections_mark
         else if n = 4 \<and> segs ! 0 = ''api'' \<and> segs ! 1 = ''notes'' \<and> m = ''GET''
         then R_notes_get
         else if segs = [''api'', ''notes''] \<and> (m = ''POST'' \<or> m = ''PUT'') then R_notes_save
         else if segs = [''api'', ''sprints''] \<and> m = ''GET'' then R_sprints_get
         else if segs = [''api'', ''sprints''] \<and> m = ''POST'' then R_sprint_create
         else if n = 3 \<and> segs ! 0 = ''api'' \<and> segs ! 1 = ''sprints'' \<and> m = ''DELETE''
         then R_sprint_delete
         else if n = 4 \<and> segs ! 0 = ''api'' \<and> segs ! 1 = ''sprints''
                 \<and> segs ! 3 = ''active'' \<and> m = ''PUT'' then R_sprint_toggle
         else if segs = [''api'', ''categories''] \<and> m = ''GET'' then R_categories_get
         else if segs = [''api'', ''categories''] \<and> m = ''POST'' then R_category_create
         else if n = 3 \<and> segs ! 0 = ''api'' \<and> segs ! 1 = ''categories'' \<and> m = ''DELETE''
         then R_category_delete
         else if segs = [''api'', ''lessons''] \<and> m = ''GET'' then R_lessons_get
         else if n = 3 \<and> segs ! 0 = ''api'' \<and> segs ! 1 = ''lessons'' \<and> m = ''GET''
         then R_lesson_get
         else if segs = [''api'', ''lessons''] \<and> m = ''POST'' then R_lesson_create
         else if n = 3 \<and> segs ! 0 = ''api'' \<and> segs ! 1 = ''lessons'' \<and> m = ''PUT''
         then R_lesson_update
         else if n = 3 \<and> segs ! 0 = ''api'' \<and> segs ! 1 = ''lessons'' \<and> m = ''DELETE''
         then R_lesson_delete
         else if n = 4 \<and> segs ! 0 = ''api'' \<and> segs ! 1 = ''users''
                 \<and> segs ! 3 = ''stats'' \<and> m = ''GET'' then R_user_stats
         else if segs = [''api'', ''users''] \<and> m = ''GET'' then R_users_get
         else if n = 3 \<and> segs ! 0 = ''api'' \<and> segs ! 1 = ''users'' \<and> m = ''DELETE''
         then R_user_delete
         else if n = 4 \<and> segs ! 0 = ''api'' \<and> segs ! 1 = ''users''
                 \<and> segs ! 3 = ''role'' \<and> m = ''PUT'' then R_user_role
         else if m = ''GET'' \<and> \<not> prefix ''api'' (concat (take 1 segs)) then R_static
         else R_not_found)"

text \<open>The branches that start with \<^verbatim>\<open>if (!authenticate()) return;\<close> answer 401 before
  anything else.\<close>

definition authenticated ::
  "request \<Rightarrow> db \<Rightarrow> (int \<Rightarrow> response \<times> db) \<Rightarrow> response \<times> db" where
  "authenticated rq d h =
     (let userId = userId_of (rq_user_id rq)
      in if \<not> authenticate userId then (unauthenticated, d) else h (uid_int userId))"

definition server :: "env \<Rightarrow> request \<Rightarrow> db \<Rightarrow> response \<times> db" where
  "server e rq d =
     (let segs = rq_segs rq
      in case route_of rq of
           R_options \<Rightarrow> (Empty 204, d)
         | R_uploads \<Rightarrow> (uploads_get e rq, d)
         | R_login \<Rightarrow> (login e rq d, d)
         | R_signup \<Rightarrow> signup e rq d
         | R_progress_get \<Rightarrow> authenticated rq d (\<lambda>uid. (progress_get e uid d, d))
         | R_progress_save \<Rightarrow> authenticated rq d (\<lambda>uid. progress_save e uid rq d)
         | R_reflection_get \<Rightarrow>
             authenticated rq d (\<lambda>uid. (reflection_get e uid (segs ! 2) d, d))
         | R_reflection_save \<Rightarrow>
             authenticated rq d (\<lambda>uid. reflection_save e uid (segs ! 2) rq d)
         | R_reflection_submit \<Rightarrow>
             authenticated rq d (\<lambda>uid. reflection_submit e uid (segs ! 2) rq d)
         | R_reflection_resubmit \<Rightarrow>
             authenticated rq d (\<lambda>uid. reflection_resubmit e uid (segs ! 2) rq d)
         | R_reflections_submitted \<Rightarrow>
             authenticated rq d (\<lambda>uid. (reflections_submitted e uid d, d))
         | R_reflections_mark \<Rightarrow> authenticated rq d (\<lambda>uid. reflections_mark e uid rq d)
         | R_notes_get \<Rightarrow>
             authenticated rq d (\<lambda>uid. (notes_get e uid (segs ! 2) (segs ! 3) d, d))
         | R_notes_save \<Rightarrow> authenticated rq d (\<lambda>uid. notes_save e uid rq d)
         | R_sprints_get \<Rightarrow> (sprints_get e d, d)
         | R_sprint_create \<Rightarrow> sprint_create e rq d
         | R_sprint_delete \<Rightarrow> sprint_delete e (segs ! 2) d
         | R_sprint_toggle \<Rightarrow> sprint_toggle e (segs ! 2) rq d
         | R_categories_get \<Rightarrow> (categories_get e d, d)
         | R_category_create \<Rightarrow> category_create e rq d
         | R_category_delete \<Rightarrow> category_delete e (segs ! 2) d
         | R_lessons_get \<Rightarrow> (lessons_get e d, d)
         | R_lesson_get \<Rightarrow> (lesson_get e (segs ! 2) d, d)
         | R_lesson_create \<Rightarrow> lesson_create e rq d
         | R_lesson_update \<Rightarrow> lesson_update e (segs ! 2) rq d
         | R_lesson_delete \<Rightarrow> lesson_delete e (segs ! 2) d
         | R_user_stats \<Rightarrow> (user_stats e rq d, d)
         | R_users_get \<Rightarrow> (users_get e d, d)
         | R_user_delete \<Rightarrow> user_delete e (segs ! 2) d
         | R_user_role \<Rightarrow> user_role e (segs ! 2) rq d
         | R_static \<Rightarrow> (static_get e rq, d)
         | R_not_found \<Rightarrow> (err 404 ''Route not found'', d))"

section \<open>Notions of the specification\<close>

text \<open>The specification's words for the identity header: it is invalid when it is
  absent, when it is not numeric (\<^verbatim>\<open>parseInt\<close> finds no number in it), or when the number
  is not positive. \<open>header_identity\<close> is the parsed integer.\<close>

definition header_invalid :: "string option \<Rightarrow> bool" where
  "header_invalid h =
     (case h of
        None \<Rightarrow> True
      | Some s \<Rightarrow> (case parseInt s of NaN \<Rightarrow> True | Num n \<Rightarrow> n \<le> 0))"

definition header_identity :: "string option \<Rightarrow> int" where
  "header_identity h =
     (case h of
        None \<Rightarrow> 0
      | Some s \<Rightarrow> (case parseInt s of NaN \<Rightarrow> 0 | Num n \<Rightarrow> n))"


text \<open>The five requests that the specification reserves to an administrator.\<close>

definition admin_crud :: "route \<Rightarrow> bool" where
  "admin_crud r =
     (r \<in> {R_sprint_create, R_sprint_delete, R_sprint_toggle, R_user_delete, R_user_role})"

definition success :: "nat \<Rightarrow> bool" where
  "success st = (200 \<le> st \<and> st < 300)"

text \<open>The error envelope: a JSON object with a member \<^verbatim>\<open>error\<close> that is a string.\<close>

fun error_envelope :: "response \<Rightarrow> bool" where
  "error_envelope (Json st (JObj kv)) =
     (case map_of kv ''error'' of Some (JStr m) \<Rightarrow> True | _ \<Rightarrow> False)"
| "error_envelope r = False"

text \<open>A response keeps the envelope when it is a success, or an error in the envelope, or
  no response at all.\<close>

definition enveloped :: "response \<Rightarrow> bool" where
  "enveloped r =
     (case status_of r of None \<Rightarrow> True | Some st \<Rightarrow> success st \<or> error_envelope r)"

text \<open>The requests of the reflection workflow and of the sprint switch, with the
  caller's header and the parsed body.\<close>

definition reflection_request :: "string \<Rightarrow> string \<Rightarrow> string option \<Rightarrow> json \<Rightarrow> request" where
  "reflection_request action lessonId h b =
     \<lparr>rq_method = ''POST'',
      rq_segs = [''api'', ''lessons'', lessonId, ''reflection'', action],
      rq_user_id = h, rq_range = None, rq_body = Some b\<rparr>"



definition get_request :: "string list \<Rightarrow> string option \<Rightarrow> request" where
  "get_request segs h =
     \<lparr>rq_method = ''GET'', rq_segs = segs, rq_user_id = h, rq_range = None,
      rq_body = None\<rparr>"





section \<open>Sample data\<close>

text \<open>An environment in which every statement succeeds, and a small database: user 1
  has no role, user 2 is an administrator, user 3 is a plain user; sprint 1 is active.\<close>

definition env0 :: env where
  "env0 =
     \<lparr>sql_err = (\<lambda>k. None),
      sql_int = (\<lambda>v. case parseInt_val v of NaN \<Rightarrow> 0 | Num n \<Rightarrow> n),
      sql_text_eq = (\<lambda>a b. a = b),
      now = 1700,
      to_number = parseInt,
      bcrypt_compare = (\<lambda>p h. Some (p = Some h)),
      bcrypt_hash = (\<lambda>p. Some p),
      default_role = Some ''user'',
      stats_body = (\<lambda>u. JObj []),
      cwd = [''srv'', ''app''],
      fs = (\<lambda>p. if p = [''srv'', ''app'', ''uploads'', ''intro.mp4'']
                     \<or> p = [''srv'', ''app'', ''db.js'']
                  then Some File else None)\<rparr>"

text \<open>The same environment with a database that refuses every statement with a
  foreign-key violation.\<close>

definition env_fk :: env where
  "env_fk = env0\<lparr>sql_err := (\<lambda>k. Some ER_NO_REFERENCED_ROW_2)\<rparr>"

definition mk_user :: "int \<Rightarrow> string \<Rightarrow> string option \<Rightarrow> user" where
  "mk_user i n r =
     \<lparr>u_id = i, u_name = JStr n, u_email = JStr (n @ ''@example.org''),
      u_password = JStr ''hash'', u_role = r, u_streak_days = 0, u_created_at = 1\<rparr>"

definition mk_sprint :: "int \<Rightarrow> bool \<Rightarrow> sprint" where
  "mk_sprint i a =
     \<lparr>s_id = i, s_title = JStr ''t'', s_description = JStr ''d'', s_video_url = JStr ''v'',
      s_max_duration_seconds = 600, s_is_active = a, s_thumbnail_url = JNull,
      s_created_at = 1\<rparr>"

definition db0 :: db where
  "db0 =
     \<lparr>users = [mk_user 1 ''root'' None, mk_user 2 ''ada'' (Some ''admin''),
               mk_user 3 ''bob'' (Some ''user'')],
      sprints = [mk_sprint 1 True, mk_sprint 2 False],
      lesson_reflections =
        [\<lparr>r_id = 1, r_user_id = 3, r_lesson_id = 5, r_text = JStr ''first'',
          r_status = ''draft'', r_score = JNull, r_admin_feedback = JNull,
          r_submitted_at = None, r_marked_at = None, r_created_at = 1, r_updated_at = 1\<rparr>],
      sprint_progress = [],
      user_notes = [],
      skill_categories = [],
      lessons = [\<lparr>l_id = 5, l_cols = [(''title'', JStr ''Loops'')], l_created_at = 1\<rparr>]\<rparr>"

definition delete_sprint_request :: request where
  "delete_sprint_request =
     \<lparr>rq_method = ''DELETE'', rq_segs = [''api'', ''sprints'', ''1''], rq_user_id = None,
      rq_range = None, rq_body = None\<rparr>"


definition note_save_request :: request where
  "note_save_request =
     \<lparr>rq_method = ''POST'', rq_segs = [''api'', ''notes''], rq_user_id = Some ''999'',
      rq_range = None,
      rq_body = Some (JObj [(''contentType'', JStr ''video_sprint''), (''contentId'', JNum 1),
                            (''noteText'', JStr ''x'')])\<rparr>"

definition progress_save_request :: request where
  "progress_save_request =
     \<lparr>rq_method = ''POST'', rq_segs = [''api'', ''progress''], rq_user_id = Some ''999'',
      rq_range = None,
      rq_body = Some (JObj [(''sprint_id'', JNum 1), (''progress_percentage'', JNum 50),
                            (''is_completed'', JBool False)])\<rparr>"

definition draft_request :: "string \<Rightarrow> string option \<Rightarrow> json \<Rightarrow> request" where
  "draft_request lessonId h b =
     \<lparr>rq_method = ''POST'', rq_segs = [''api'', ''lessons'', lessonId, ''reflection''],
      rq_user_id = h, rq_range = None, rq_body = Some b\<rparr>"

text \<open>A path segment that normalisation keeps.\<close>

definition plain :: "string \<Rightarrow> bool" where
  "plain s = (s \<noteq> [] \<and> s \<noteq> ''.'' \<and> s \<noteq> ''..'')"


section \<open>Evaluation and basic facts\<close>

lemmas js_defs = parseInt_def parseInt_val_def is_space_def is_digit_def trim_def dec_int_def

lemma parseInt_empty: "parseInt [] = NaN"
  by (simp add: parseInt_def)

lemma status_err [simp]: "status_of (err st m) = Some st"
  by (simp add: err_def)

lemma status_msg [simp]: "status_of (msg st m) = Some st"
  by (simp add: msg_def)

section \<open>Authentication\<close>

lemma authenticate_header: "authenticate (userId_of h) = (\<not> header_invalid h)"
  by (auto simp: authenticate_def userId_of_def header_invalid_def parseInt_empty
      split: option.splits jsnum.splits)

lemma uid_header: "\<not> header_invalid h \<Longrightarrow> uid_int (userId_of h) = header_identity h"
  by (auto simp: userId_of_def header_invalid_def header_identity_def parseInt_empty
      split: option.splits jsnum.splits)

lemma authenticated_eq:
  "authenticated rq d k =
     (if header_invalid (rq_user_id rq) then (unauthenticated, d)
      else k (header_identity (rq_user_id rq)))"
  by (simp add: authenticated_def authenticate_header uid_header)















lemma header_examples:
  "header_invalid None" "header_invalid (Some [])" "header_invalid (Some ''abc'')"
  "header_invalid (Some ''0'')" "header_invalid (Some ''-3'')"
  "\<not> header_invalid (Some ''7'')" "\<not> header_invalid (Some '' 7'')"
  "\<not> header_invalid (Some ''12abc'')" "header_identity (Some ''12abc'') = 12"
  by (simp_all add: header_invalid_def header_identity_def js_defs)

section \<open>The administrator's requests on sprints and users\<close>

lemma route_of_header [simp]: "route_of (rq\<lparr>rq_user_id := h\<rparr>) = route_of rq"
  by (simp add: route_of_def)

lemma parse_body_header [simp]: "parse_body (rq\<lparr>rq_user_id := h\<rparr>) = parse_body rq"
  by (simp add: parse_body_def)

lemma sprint_create_header:
  "sprint_create e (rq\<lparr>rq_user_id := h\<rparr>) d = sprint_create e rq d"
  by (simp add: sprint_create_def)

lemma sprint_toggle_header:
  "sprint_toggle e i (rq\<lparr>rq_user_id := h\<rparr>) d = sprint_toggle e i rq d"
  by (simp add: sprint_toggle_def)

lemma user_role_header: "user_role e i (rq\<lparr>rq_user_id := h\<rparr>) d = user_role e i rq d"
  by (simp add: user_role_def)

lemma sprint_create_not403: "status_of (fst (sprint_create e rq d)) \<noteq> Some 403"
  by (simp add: sprint_create_def Let_def split: option.splits)

lemma sprint_delete_not403: "status_of (fst (sprint_delete e i d)) \<noteq> Some 403"
  by (simp add: sprint_delete_def Let_def split: option.splits)

lemma updateActiveStatus_not403: "status_of (fst (updateActiveStatus e k a i d)) \<noteq> Some 403"
  by (simp add: updateActiveStatus_def Let_def split: option.splits)

lemma sprint_toggle_not403: "status_of (fst (sprint_toggle e i rq d)) \<noteq> Some 403"
  by (simp add: sprint_toggle_def Let_def updateActiveStatus_not403 split: option.splits)

lemma user_delete_not403: "status_of (fst (user_delete e i d)) \<noteq> Some 403"
  by (simp add: user_delete_def Let_def split: option.splits)

lemma user_role_not403: "status_of (fst (user_role e i rq d)) \<noteq> Some 403"
  by (simp add: user_role_def Let_def split: option.splits)

text \<open>
  Claim C1, as the code has it. Creating, deleting and switching a sprint, deleting a
  user and changing a user's role go through no authentication and no role check: the
  response and the database after the request are the same for every \<^verbatim>\<open>X-User-Id\<close> header,
  and the response is never 403.
\<close>

theorem admin_crud_ungated:
  assumes "admin_crud (route_of rq)"
  shows "server e (rq\<lparr>rq_user_id := h\<rparr>) d = server e rq d
       \<and> status_of (fst (server e rq d)) \<noteq> Some 403"
  using assms
  by (cases "route_of rq")
     (simp_all add: admin_crud_def server_def Let_def sprint_create_header sprint_toggle_header
        user_role_header sprint_create_not403 sprint_delete_not403 sprint_toggle_not403
        user_delete_not403 user_role_not403)

theorem admin_crud_ungated_witness:
  "admin_crud (route_of delete_sprint_request)
   \<and> server env0 (delete_sprint_request\<lparr>rq_user_id := Some ''3''\<rparr>) db0
       = server env0 delete_sprint_request db0
   \<and> status_of (fst (server env0 delete_sprint_request db0)) \<noteq> Some 403"
  using admin_crud_ungated [of delete_sprint_request env0 "Some ''3''" db0]
  by (simp add: admin_crud_def route_of_def delete_sprint_request_def)

text \<open>
  Claim C1, as the specification states it, fails: \<^verbatim>\<open>DELETE /api/sprints/1\<close> without any
  \<^verbatim>\<open>X-User-Id\<close> header is answered 204, and sprint 1 is gone from the table.
\<close>

theorem admin_crud_counterexample:
  "rq_user_id delete_sprint_request = None
   \<and> fst (server env0 delete_sprint_request db0) = Empty 204
   \<and> sprints (snd (server env0 delete_sprint_request db0)) = [mk_sprint 2 False]
   \<and> sprints db0 = [mk_sprint 1 True, mk_sprint 2 False]"
  by (simp add: delete_sprint_request_def server_def route_of_def sprint_delete_def
      env0_def db0_def mk_sprint_def js_defs)

section \<open>Files under /uploads\<close>

lemma foldl_norm_step_plain:
  "list_all plain st \<Longrightarrow> list_all plain (foldl norm_step st xs)"
proof (induction xs arbitrary: st)
  case Nil
  then show ?case by simp
next
  case (Cons x xs)
  have "list_all plain (norm_step st x)"
    using Cons.prems
    by (auto simp: norm_step_def plain_def list_all_iff dest: in_set_butlastD)
  then show ?case using Cons.IH by simp
qed

lemma foldl_norm_step_append:
  "''..'' \<notin> set xs \<Longrightarrow>
   foldl norm_step st xs = st @ filter (\<lambda>s. s \<noteq> [] \<and> s \<noteq> ''.'') xs"
  by (induction xs arbitrary: st) (auto simp: norm_step_def)

lemma foldl_norm_step_id:
  assumes "list_all plain ys"
  shows "foldl norm_step [] ys = ys"
proof -
  have "''..'' \<notin> set ys" using assms by (auto simp: list_all_iff plain_def)
  moreover have "filter (\<lambda>s. s \<noteq> [] \<and> s \<noteq> ''.'') ys = ys"
    using assms by (auto simp: list_all_iff plain_def intro: filter_True)
  ultimately show ?thesis by (simp add: foldl_norm_step_append)
qed

lemma path_join_plain: "list_all plain (path_join base segs)"
  by (simp add: path_join_def foldl_norm_step_plain)

lemma path_join_under:
  assumes "''..'' \<notin> set segs"
  shows "path_join (UPLOADS_DIR e) segs
           = UPLOADS_DIR e @ filter (\<lambda>s. s \<noteq> [] \<and> s \<noteq> ''.'') segs"
proof -
  have "foldl norm_step [] (UPLOADS_DIR e) = UPLOADS_DIR e"
    by (rule foldl_norm_step_id) (simp add: UPLOADS_DIR_def path_join_plain)
  then show ?thesis
    using assms by (simp add: path_join_def foldl_norm_step_append)
qed

text \<open>
  Claim C2, as the code has it. \<^verbatim>\<open>GET /uploads/{path}\<close> streams the file at
  \<^verbatim>\<open>path.join(UPLOADS_DIR, path)\<close>. When no segment of the path is \<^verbatim>\<open>..\<close>, that file
  exists and lies under the uploads root.
\<close>

theorem uploads_under_root:
  assumes "route_of rq = R_uploads" and "''..'' \<notin> set (rq_segs rq)"
    and "fst (server e rq d) = Stream st p"
  shows "prefix (UPLOADS_DIR e) p \<and> fs e p \<noteq> None"
proof -
  let ?t = "drop 1 (rq_segs rq)"
  have nd: "''..'' \<notin> set ?t"
    using assms(2) by (auto dest: in_set_dropD)
  have "uploads_get e rq = Stream st p"
    using assms(1,3) by (simp add: server_def)
  then have p: "p = path_join (UPLOADS_DIR e) ?t" and f: "fs e p \<noteq> None"
    by (auto simp: uploads_get_def Let_def split: option.splits if_splits)
  have "prefix (UPLOADS_DIR e) (path_join (UPLOADS_DIR e) ?t)"
    unfolding path_join_under [OF nd] by simp
  with p f show ?thesis by simp
qed

theorem uploads_under_root_witness:
  "route_of (get_request [''uploads'', ''intro.mp4''] None) = R_uploads
   \<and> ''..'' \<notin> set (rq_segs (get_request [''uploads'', ''intro.mp4''] None))
   \<and> fst (server env0 (get_request [''uploads'', ''intro.mp4''] None) db0)
       = Stream 200 [''srv'', ''app'', ''uploads'', ''intro.mp4'']
   \<and> prefix (UPLOADS_DIR env0) [''srv'', ''app'', ''uploads'', ''intro.mp4'']"
proof -
  let ?rq = "get_request [''uploads'', ''intro.mp4''] None"
  have r: "route_of ?rq = R_uploads"
    by (simp add: route_of_def get_request_def)
  have n: "''..'' \<notin> set (rq_segs ?rq)"
    by (simp add: get_request_def)
  have s: "fst (server env0 ?rq db0) = Stream 200 [''srv'', ''app'', ''uploads'', ''intro.mp4'']"
    by (simp add: server_def route_of_def uploads_get_def UPLOADS_DIR_def path_join_def
        norm_step_def get_request_def env0_def)
  from uploads_under_root [OF r n s] r n s show ?thesis by simp
qed

text \<open>
  Claim C2, as the specification states it, fails: \<^verbatim>\<open>GET /uploads/../db.js\<close> streams
  \<^verbatim>\<open>/srv/app/db.js\<close>, a file outside the uploads root \<^verbatim>\<open>/srv/app/uploads\<close>.
\<close>

theorem uploads_traversal_counterexample:
  "fst (server env0 (get_request [''uploads'', ''..'', ''db.js''] None) db0)
     = Stream 200 [''srv'', ''app'', ''db.js'']
   \<and> UPLOADS_DIR env0 = [''srv'', ''app'', ''uploads'']
   \<and> \<not> prefix (UPLOADS_DIR env0) [''srv'', ''app'', ''db.js'']"
  by (simp add: server_def route_of_def uploads_get_def UPLOADS_DIR_def path_join_def
      norm_step_def get_request_def env0_def)

section \<open>Foreign-key violations\<close>

lemma header_999: "\<not> header_invalid (Some ''999'')"
  by (simp add: header_invalid_def parseInt_def is_space_def is_digit_def)

text \<open>
  Claim C3. A statement refused with \<^verbatim>\<open>ER_NO_REFERENCED_ROW_2\<close> is answered 400 by the
  progress upsert only. The notes upsert picks the validation message for that code and
  sends it with status 500; saving, submitting and resubmitting a reflection answer 500
  with their generic message.
\<close>

theorem foreign_key_status:
  "fst (server env_fk note_save_request db0)
     = err 500 ''Error saving note: Validation failed. Content or User ID does not exist. (Foreign Key Check Failed)''
   \<and> fst (server env_fk
            (draft_request ''77'' (Some ''999'') (JObj [(''reflection_text'', JStr ''my text'')]))
            db0)
       = err 500 ''Failed to save reflection''
   \<and> fst (server env_fk
            (reflection_request ''submit'' ''77'' (Some ''999'')
               (JObj [(''reflection_text'', JStr ''my text'')])) db0)
       = err 500 ''Failed to submit reflection''
   \<and> fst (server env_fk
            (reflection_request ''resubmit'' ''77'' (Some ''999'')
               (JObj [(''reflection_text'', JStr ''my text'')])) db0)
       = err 500 ''Failed to resubmit reflection''
   \<and> fst (server env_fk progress_save_request db0)
       = err 400 ''Validation failed: Sprint or User ID does not exist. (Foreign Key Check Failed)''"
  by (simp add: server_def route_of_def authenticated_eq header_999 notes_save_def
      reflection_save_def reflection_submit_def reflection_resubmit_def progress_save_def
      parse_body_def note_save_request_def progress_save_request_def reflection_request_def
      draft_request_def env_fk_def env0_def trim_def is_space_def)

section \<open>The duration of a sprint\<close>




lemma duration_examples:
  "maxDurationSeconds (times60 (parseInt_val (JStr ''15''))) = 900"
  "maxDurationSeconds (times60 (parseInt_val (JNum 0))) = 600"
  "maxDurationSeconds (times60 (parseInt_val (JStr ''abc''))) = 600"
  "maxDurationSeconds (times60 (parseInt_val (JNum (-5)))) = 600"
  "maxDurationSeconds (times60 (parseInt_val JNull)) = 600"
  by code_simp+

section \<open>The administrator fallback\<close>

lemma authorized_has_role:
  assumes "authorizeAdmin e k uid d"
  shows "Some ''admin'' \<in> set (map u_role (filter (\<lambda>u. u_id u = uid) (users d)))"
proof -
  from assms obtain u us
    where f: "filter (\<lambda>u. u_id u = uid) (users d) = u # us"
      and r: "u_role u = Some ''admin''"
    by (auto simp: authorizeAdmin_def split: option.splits list.splits)
  have "u \<in> set (filter (\<lambda>u. u_id u = uid) (users d))"
    unfolding f by simp
  with r show ?thesis by force
qed

text \<open>
  Claim C10. The fallback that makes user 1 an administrator is in the listing of
  \<^verbatim>\<open>GET /api/users\<close> alone: the listed role is the stored role, and for a \<^verbatim>\<open>NULL\<close> role it
  is \<^verbatim>\<open>admin\<close> for id 1 and \<^verbatim>\<open>user\<close> otherwise. The two administrator endpoints of the
  reflection workflow answer 403, and write nothing, unless a row of the caller has the role
  \<^verbatim>\<open>admin\<close> itself; so does a caller with id 1 whose role is \<^verbatim>\<open>NULL\<close>.
\<close>

theorem admin_fallback_listing_only:
  "(sql_err e 0 = None \<longrightarrow>
      fst (server e (get_request [''api'', ''users''] h) d)
        = Json 200 (JArr (map (user_json coalesce_role) (users d))))
   \<and> (u_role u = None \<longrightarrow> coalesce_role u = (if u_id u = 1 then ''admin'' else ''user''))
   \<and> (u_role u = Some r \<longrightarrow> coalesce_role u = r)
   \<and> ((route_of rq = R_reflections_submitted \<or> route_of rq = R_reflections_mark)
        \<and> \<not> header_invalid (rq_user_id rq)
        \<and> Some ''admin'' \<notin> set (map u_role
             (filter (\<lambda>u. u_id u = header_identity (rq_user_id rq)) (users d)))
      \<longrightarrow> server e rq d = (forbidden, d))"
proof -
  have a: "sql_err e 0 = None \<longrightarrow>
      fst (server e (get_request [''api'', ''users''] h) d)
        = Json 200 (JArr (map (user_json coalesce_role) (users d)))"
    by (simp add: server_def route_of_def get_request_def users_get_def)
  have b: "u_role u = None \<longrightarrow> coalesce_role u = (if u_id u = 1 then ''admin'' else ''user'')"
    by (simp add: coalesce_role_def id1_role_def)
  have c: "u_role u = Some r \<longrightarrow> coalesce_role u = r"
    by (simp add: coalesce_role_def)
  have d: "(route_of rq = R_reflections_submitted \<or> route_of rq = R_reflections_mark)
        \<and> \<not> header_invalid (rq_user_id rq)
        \<and> Some ''admin'' \<notin> set (map u_role
             (filter (\<lambda>u. u_id u = header_identity (rq_user_id rq)) (users d)))
      \<longrightarrow> server e rq d = (forbidden, d)"
  proof (intro impI, elim conjE)
    assume r: "route_of rq = R_reflections_submitted \<or> route_of rq = R_reflections_mark"
      and h: "\<not> header_invalid (rq_user_id rq)"
      and n: "Some ''admin'' \<notin> set (map u_role
             (filter (\<lambda>u. u_id u = header_identity (rq_user_id rq)) (users d)))"
    from n have "\<not> authorizeAdmin e 0 (header_identity (rq_user_id rq)) d"
      using authorized_has_role by blast
    with r h show "server e rq d = (forbidden, d)"
      by (auto simp: server_def authenticated_eq reflections_submitted_def
          reflections_mark_def)
  qed
  from a b c d show ?thesis by blast
qed

lemma header_1: "\<not> header_invalid (Some ''1'')" "header_identity (Some ''1'') = 1"
  by (simp_all add: header_invalid_def header_identity_def parseInt_def is_space_def
      is_digit_def)

theorem admin_fallback_listing_only_witness:
  "sql_err env0 0 = None
   \<and> fst (server env0 (get_request [''api'', ''users''] None) db0)
       = Json 200 (JArr (map (user_json coalesce_role) (users db0)))
   \<and> u_role (mk_user 1 ''root'' None) = None
   \<and> coalesce_role (mk_user 1 ''root'' None) = ''admin''
   \<and> route_of (get_request [''api'', ''reflections'', ''submitted''] (Some ''1''))
       = R_reflections_submitted
   \<and> \<not> header_invalid (Some ''1'')
   \<and> server env0 (get_request [''api'', ''reflections'', ''submitted''] (Some ''1'')) db0
       = (forbidden, db0)"
  using admin_fallback_listing_only [of env0 None db0 "mk_user 1 ''root'' None" "''x''"
      "get_request [''api'', ''reflections'', ''submitted''] (Some ''1'')"]
  by (simp add: env0_def db0_def mk_user_def get_request_def route_of_def header_1)

section \<open>The single active sprint\<close>












section \<open>Submitting and resubmitting a reflection\<close>

lemma resubmit_sql_none:
  "filter (reflection_of uid lid) rs = [] \<Longrightarrow> resubmit_sql t uid lid txt rs = rs"
  by (auto simp: resubmit_sql_def filter_empty_conv intro: map_idI)

lemma submit_sql_exists:
  "filter (reflection_of uid lid) rs \<noteq> [] \<Longrightarrow>
   submit_sql t uid lid txt rs = resubmit_sql t uid lid txt rs"
  by (simp add: submit_sql_def resubmit_sql_def)

lemma submit_sql_new:
  "filter (reflection_of uid lid) rs = [] \<Longrightarrow>
   submit_sql t uid lid txt rs = rs @ [new_reflection t uid lid txt ''submitted'' (Some t) rs]"
  by (simp add: submit_sql_def)

lemma resubmit_sql_rows:
  "r \<in> set (resubmit_sql t uid lid txt rs) \<Longrightarrow>
   (if reflection_of uid lid r
    then r_text r = txt \<and> r_status r = ''submitted'' \<and> r_submitted_at r = Some t
    else r \<in> set rs)"
  by (auto simp: resubmit_sql_def reflection_of_def split: if_splits)

lemma resubmit_sql_idem:
  "resubmit_sql t uid lid txt (resubmit_sql t uid lid txt rs) = resubmit_sql t uid lid txt rs"
  by (induction rs) (auto simp: resubmit_sql_def reflection_of_def)

lemma resubmit_sql_keeps:
  "(filter (reflection_of uid lid) (resubmit_sql t uid lid txt rs) = [])
     = (filter (reflection_of uid lid) rs = [])"
  by (induction rs) (auto simp: resubmit_sql_def reflection_of_def)

lemma new_reflection_of:
  "reflection_of uid lid (new_reflection t uid lid txt st sub rs)"
  by (simp add: reflection_of_def new_reflection_def)

lemma submit_sql_idem:
  "submit_sql t uid lid txt (submit_sql t uid lid txt rs) = submit_sql t uid lid txt rs"
proof (cases "filter (reflection_of uid lid) rs = []")
  case True
  let ?n = "new_reflection t uid lid txt ''submitted'' (Some t) rs"
  have ex: "filter (reflection_of uid lid) (rs @ [?n]) \<noteq> []"
    by (simp add: new_reflection_of)
  have "resubmit_sql t uid lid txt (rs @ [?n]) = resubmit_sql t uid lid txt rs @ [?n]"
    by (simp add: resubmit_sql_def new_reflection_def)
  then show ?thesis
    by (simp only: submit_sql_new [OF True] submit_sql_exists [OF ex]
        resubmit_sql_none [OF True])
next
  case False
  then have ex: "filter (reflection_of uid lid) (resubmit_sql t uid lid txt rs) \<noteq> []"
    by (simp add: resubmit_sql_keeps)
  show ?thesis
    by (simp only: submit_sql_exists [OF False] submit_sql_exists [OF ex] resubmit_sql_idem)
qed

lemma server_submit:
  assumes "\<not> header_invalid h" and "destructure b = Some f"
    and "f ''reflection_text'' = Some (JStr txt)" and "trim txt \<noteq> []"
    and "sql_err e 0 = None"
  shows "server e (reflection_request ''submit'' lessonId h b) d =
     (msg 200 ''Reflection submitted for marking'',
      d\<lparr>lesson_reflections :=
          submit_sql (now e) (header_identity h) (sql_int e (JStr lessonId)) (JStr txt)
            (lesson_reflections d)\<rparr>)"
  using assms
  by (simp add: server_def route_of_def authenticated_eq reflection_submit_def parse_body_def
      reflection_request_def)

lemma server_resubmit:
  assumes "\<not> header_invalid h" and "destructure b = Some f"
    and "f ''reflection_text'' = Some (JStr txt)" and "trim txt \<noteq> []"
    and "sql_err e 0 = None"
  shows "server e (reflection_request ''resubmit'' lessonId h b) d =
     (if filter (reflection_of (header_identity h) (sql_int e (JStr lessonId)))
           (lesson_reflections d) = []
      then err 404 ''Reflection not found''
      else msg 200 ''Reflection resubmitted for marking'',
      d\<lparr>lesson_reflections :=
          resubmit_sql (now e) (header_identity h) (sql_int e (JStr lessonId)) (JStr txt)
            (lesson_reflections d)\<rparr>)"
  using assms
  by (simp add: server_def route_of_def authenticated_eq reflection_resubmit_def parse_body_def
      reflection_request_def Let_def)

text \<open>
  Claim C5. For an authenticated caller, a body whose \<^verbatim>\<open>reflection_text\<close> is a string that
  is not empty once trimmed, and a database that executes the statement:
  when the caller has no reflection on the lesson, resubmit answers 404 and leaves the
  database as it was, while submit creates the row, with the text, the status
  \<^verbatim>\<open>submitted\<close> and the submission time;
  when there is a row, whatever its status, both answer 200 and leave the same database,
  in which the caller's row for the lesson has the new text, the status \<^verbatim>\<open>submitted\<close> and
  the new submission time, and every other row is as before;
  and submitting the same text again at the same time changes nothing more.
\<close>

theorem submit_resubmit_asymmetry:
  assumes auth: "\<not> header_invalid h"
    and body: "destructure b = Some f" "f ''reflection_text'' = Some (JStr txt)"
    and nonempty: "trim txt \<noteq> []"
    and ok: "sql_err e 0 = None"
    and names: "uid = header_identity h" "lid = sql_int e (JStr lessonId)"
      "rs = lesson_reflections d" "t = now e"
      "sub = reflection_request ''submit'' lessonId h b"
      "res = reflection_request ''resubmit'' lessonId h b"
  shows "(filter (reflection_of uid lid) rs = [] \<longrightarrow>
            server e res d = (err 404 ''Reflection not found'', d)
          \<and> server e sub d =
              (msg 200 ''Reflection submitted for marking'',
               d\<lparr>lesson_reflections :=
                   rs @ [new_reflection t uid lid (JStr txt) ''submitted'' (Some t) rs]\<rparr>))
       \<and> (filter (reflection_of uid lid) rs \<noteq> [] \<longrightarrow>
            status_of (fst (server e sub d)) = Some 200
          \<and> status_of (fst (server e res d)) = Some 200
          \<and> snd (server e sub d) = snd (server e res d)
          \<and> lesson_reflections (snd (server e res d)) = resubmit_sql t uid lid (JStr txt) rs)
       \<and> (\<forall>r \<in> set (resubmit_sql t uid lid (JStr txt) rs).
            if reflection_of uid lid r
            then r_text r = JStr txt \<and> r_status r = ''submitted'' \<and> r_submitted_at r = Some t
            else r \<in> set rs)
       \<and> server e sub (snd (server e sub d)) = server e sub d"
proof -
  note sub = server_submit [OF auth body nonempty ok, of lessonId]
  note res = server_resubmit [OF auth body nonempty ok, of lessonId]
  have a: "filter (reflection_of uid lid) rs = [] \<longrightarrow>
            server e res d = (err 404 ''Reflection not found'', d)
          \<and> server e sub d =
              (msg 200 ''Reflection submitted for marking'',
               d\<lparr>lesson_reflections :=
                   rs @ [new_reflection t uid lid (JStr txt) ''submitted'' (Some t) rs]\<rparr>)"
    by (simp add: names sub res resubmit_sql_none submit_sql_new)
  have b: "filter (reflection_of uid lid) rs \<noteq> [] \<longrightarrow>
            status_of (fst (server e sub d)) = Some 200
          \<and> status_of (fst (server e res d)) = Some 200
          \<and> snd (server e sub d) = snd (server e res d)
          \<and> lesson_reflections (snd (server e res d)) = resubmit_sql t uid lid (JStr txt) rs"
    by (simp add: names sub res submit_sql_exists msg_def)
  have c: "\<forall>r \<in> set (resubmit_sql t uid lid (JStr txt) rs).
            if reflection_of uid lid r
            then r_text r = JStr txt \<and> r_status r = ''submitted'' \<and> r_submitted_at r = Some t
            else r \<in> set rs"
    using resubmit_sql_rows by blast
  have d: "server e sub (snd (server e sub d)) = server e sub d"
    by (simp add: names sub submit_sql_idem)
  from a b c d show ?thesis by blast
qed

lemma header_3: "\<not> header_invalid (Some ''3'')" "header_identity (Some ''3'') = 3"
  by (simp_all add: header_invalid_def header_identity_def parseInt_def is_space_def
      is_digit_def)

theorem submit_resubmit_asymmetry_witness:
  "\<not> header_invalid (Some ''3'')
   \<and> trim ''second'' \<noteq> []
   \<and> sql_err env0 0 = None
   \<and> filter (reflection_of 3 6) (lesson_reflections db0) = []
   \<and> server env0 (reflection_request ''resubmit'' ''6'' (Some ''3'')
        (JObj [(''reflection_text'', JStr ''second'')])) db0
       = (err 404 ''Reflection not found'', db0)
   \<and> server env0 (reflection_request ''submit'' ''6'' (Some ''3'')
        (JObj [(''reflection_text'', JStr ''second'')])) db0
       = (msg 200 ''Reflection submitted for marking'',
          db0\<lparr>lesson_reflections := lesson_reflections db0 @
               [new_reflection 1700 3 6 (JStr ''second'') ''submitted'' (Some 1700)
                  (lesson_reflections db0)]\<rparr>)"
proof -
  let ?b = "JObj [(''reflection_text'', JStr ''second'')]"
  have d: "destructure ?b = Some (map_of [(''reflection_text'', JStr ''second'')])"
    "map_of [(''reflection_text'', JStr ''second'')] ''reflection_text'' = Some (JStr ''second'')"
    by simp_all
  have t: "trim ''second'' \<noteq> []"
    by (simp add: trim_def is_space_def)
  have e: "sql_err env0 0 = None" "now env0 = 1700"
    by (simp_all add: env0_def)
  have i: "sql_int env0 (JStr ''6'') = 6"
    by (simp add: env0_def parseInt_val_def parseInt_def is_space_def is_digit_def)
  have n: "filter (reflection_of 3 6) (lesson_reflections db0) = []"
    by (simp add: db0_def reflection_of_def)
  from submit_resubmit_asymmetry [OF header_3(1) d t e(1) header_3(2) [symmetric]
      i [symmetric] refl e(2) [symmetric] refl refl, of db0]
    header_3(1) t e(1) n
  show ?thesis by simp
qed

section \<open>Marking a reflection\<close>









section \<open>The error envelope\<close>

lemma enveloped_err [simp]: "enveloped (err st m)"
  by (simp add: enveloped_def err_def)

lemma enveloped_ok [simp]:
  "enveloped (Json 200 b)" "enveloped (Json 201 b)" "enveloped (msg 200 m)"
  "enveloped (msg 201 m)" "enveloped (Empty 204)" "enveloped (Content 200 t p)"
  "enveloped NoResponse"
  by (simp_all add: enveloped_def msg_def success_def)

lemma enveloped_forbidden [simp]: "enveloped forbidden" "enveloped unauthenticated"
  by (simp_all add: forbidden_def unauthenticated_def)

lemma enveloped_authenticated:
  "(\<And>uid. enveloped (fst (k uid))) \<Longrightarrow> enveloped (fst (authenticated rq d k))"
  by (simp add: authenticated_def Let_def)

lemma enveloped_login: "enveloped (login e rq d)"
  by (simp add: login_def split: option.splits list.splits bool.splits)

lemma enveloped_signup: "enveloped (fst (signup e rq d))"
  by (simp add: signup_def split: option.splits)

lemma enveloped_progress_get: "enveloped (progress_get e uid d)"
  by (simp add: progress_get_def split: option.splits)

lemma enveloped_progress_save: "enveloped (fst (progress_save e uid rq d))"
  by (simp add: progress_save_def split: option.splits)

lemma enveloped_reflection_get: "enveloped (reflection_get e uid l d)"
  by (simp add: reflection_get_def split: option.splits list.splits)

lemma enveloped_reflection_save: "enveloped (fst (reflection_save e uid l rq d))"
  by (simp add: reflection_save_def split: option.splits)

lemma enveloped_reflection_submit: "enveloped (fst (reflection_submit e uid l rq d))"
  by (simp add: reflection_submit_def split: option.splits text_check.splits)

lemma enveloped_reflection_resubmit: "enveloped (fst (reflection_resubmit e uid l rq d))"
  by (simp add: reflection_resubmit_def Let_def split: option.splits text_check.splits)

lemma enveloped_reflections_submitted: "enveloped (reflections_submitted e uid d)"
  by (simp add: reflections_submitted_def split: option.splits)

lemma enveloped_reflections_mark: "enveloped (fst (reflections_mark e uid rq d))"
  by (simp add: reflections_mark_def Let_def split: option.splits)

lemma enveloped_notes_get: "enveloped (notes_get e uid a b d)"
  by (simp add: notes_get_def split: option.splits list.splits)

lemma enveloped_notes_save: "enveloped (fst (notes_save e uid rq d))"
  by (simp add: notes_save_def Let_def split: option.splits)

lemma enveloped_sprints_get: "enveloped (sprints_get e d)"
  by (simp add: sprints_get_def split: option.splits)

lemma enveloped_sprint_create: "enveloped (fst (sprint_create e rq d))"
  by (simp add: sprint_create_def Let_def split: option.splits)

lemma enveloped_sprint_delete: "enveloped (fst (sprint_delete e i d))"
  by (simp add: sprint_delete_def Let_def split: option.splits)

lemma enveloped_updateActiveStatus: "enveloped (fst (updateActiveStatus e k a i d))"
  by (simp add: updateActiveStatus_def Let_def split: option.splits)

lemma enveloped_sprint_toggle: "enveloped (fst (sprint_toggle e i rq d))"
  by (simp add: sprint_toggle_def Let_def enveloped_updateActiveStatus split: option.splits)

lemma enveloped_categories_get: "enveloped (categories_get e d)"
  by (simp add: categories_get_def split: option.splits)

lemma enveloped_category_create: "enveloped (fst (category_create e rq d))"
  by (simp add: category_create_def Let_def split: option.splits)

lemma enveloped_category_delete: "enveloped (fst (category_delete e i d))"
  by (simp add: category_delete_def Let_def split: option.splits)

lemma enveloped_lessons_get: "enveloped (lessons_get e d)"
  by (simp add: lessons_get_def split: option.splits)

lemma enveloped_lesson_get: "enveloped (lesson_get e i d)"
  by (simp add: lesson_get_def split: option.splits list.splits)

lemma enveloped_lesson_create: "enveloped (fst (lesson_create e rq d))"
  by (simp add: lesson_create_def Let_def split: option.splits)

lemma enveloped_lesson_update: "enveloped (fst (lesson_update e i rq d))"
  by (simp add: lesson_update_def Let_def split: option.splits)

lemma enveloped_lesson_delete: "enveloped (fst (lesson_delete e i d))"
  by (simp add: lesson_delete_def Let_def split: option.splits)

lemma enveloped_user_stats: "enveloped (user_stats e rq d)"
  by (simp add: user_stats_def Let_def split: option.splits)
     (simp add: enveloped_def)

lemma enveloped_users_get: "enveloped (users_get e d)"
  by (simp add: users_get_def split: option.splits)

lemma enveloped_user_delete: "enveloped (fst (user_delete e i d))"
  by (simp add: user_delete_def Let_def split: option.splits)

lemma enveloped_user_role: "enveloped (fst (user_role e i rq d))"
  by (simp add: user_role_def Let_def split: option.splits)

lemma enveloped_static_get: "enveloped (static_get e rq)"
  by (simp add: static_get_def Let_def split: option.splits fsnode.splits)

lemmas enveloped_handlers =
  enveloped_login enveloped_signup enveloped_progress_get enveloped_progress_save
  enveloped_reflection_get enveloped_reflection_save enveloped_reflection_submit
  enveloped_reflection_resubmit enveloped_reflections_submitted enveloped_reflections_mark
  enveloped_notes_get enveloped_notes_save enveloped_sprints_get enveloped_sprint_create
  enveloped_sprint_delete enveloped_sprint_toggle enveloped_categories_get
  enveloped_category_create enveloped_category_delete enveloped_lessons_get
  enveloped_lesson_get enveloped_lesson_create enveloped_lesson_update enveloped_lesson_delete
  enveloped_user_stats enveloped_users_get enveloped_user_delete enveloped_user_role
  enveloped_static_get

lemma enveloped_server:
  "route_of rq \<noteq> R_uploads \<Longrightarrow> enveloped (fst (server e rq d))"
  by (cases "route_of rq")
     (simp_all add: server_def Let_def enveloped_handlers enveloped_authenticated)

text \<open>
  Claim C8, as the code has it. Every response of a request that is not a
  \<^verbatim>\<open>GET /uploads/...\<close>, when its status is not a 2xx, is a JSON object with a string member
  \<^verbatim>\<open>error\<close>.
\<close>

theorem error_envelope_except_uploads:
  assumes "route_of rq \<noteq> R_uploads"
    and "status_of (fst (server e rq d)) = Some st" and "\<not> success st"
  shows "error_envelope (fst (server e rq d))"
  using enveloped_server [OF assms(1), of e d] assms(2,3)
  by (simp add: enveloped_def)

theorem error_envelope_except_uploads_witness:
  "route_of (get_request [''api'', ''progress''] None) \<noteq> R_uploads
   \<and> status_of (fst (server env0 (get_request [''api'', ''progress''] None) db0)) = Some 401
   \<and> \<not> success 401
   \<and> error_envelope (fst (server env0 (get_request [''api'', ''progress''] None) db0))"
proof -
  let ?rq = "get_request [''api'', ''progress''] None"
  have r: "route_of ?rq \<noteq> R_uploads"
    by (simp add: route_of_def get_request_def)
  have s: "status_of (fst (server env0 ?rq db0)) = Some 401"
    by (simp add: server_def route_of_def get_request_def authenticated_def userId_of_def
        authenticate_def unauthenticated_def)
  have n: "\<not> success 401"
    by (simp add: success_def)
  from error_envelope_except_uploads [OF r s n] r s n show ?thesis by simp
qed

text \<open>
  Claim C8, as the specification states it, fails: the 404 for a file that is missing
  under \<^verbatim>\<open>/uploads\<close> is the plain text \<^verbatim>\<open>File Not Found\<close>, not a JSON object.
\<close>

theorem error_envelope_counterexample:
  "fst (server env0 (get_request [''uploads'', ''missing.mp4''] None) db0)
     = Plain 404 ''File Not Found''
   \<and> \<not> success 404
   \<and> \<not> error_envelope (Plain 404 ''File Not Found'')"
  by (simp add: server_def route_of_def uploads_get_def UPLOADS_DIR_def path_join_def
      norm_step_def get_request_def env0_def success_def)

end
